theory Spec2Isabelle
  imports Complex_Main
begin

section \<open>JavaScript values\<close>

text \<open>
  The values that flow through \<open>src/server.js\<close>: decoded JSON documents, the objects the
  handlers build, and \<open>undefined\<close>, \<open>NaN\<close> and the two infinities, which property reads
  and \<open>parseInt\<close> produce. An object is the list of its properties in insertion order. A
  finite number is the real it denotes; every arithmetic operation of the source is
  followed by the rounding to a double defined in the next section.
\<close>

datatype jsval =
    JUndefined
  | JNull
  | JBool bool
  | JNaN
  | JNum real
  | JInfinity
  | JNegInfinity
  | JStr string
  | JArr "jsval list"
  | JObj "(string \<times> jsval) list"

text \<open>What a \<open>throw\<close> carries: \<open>new Error(message)\<close>, or the engine's \<open>TypeError\<close>.\<close>

datatype js_error = Error string | TypeError

text \<open>Template literals print a number in decimal: \<open>`${503}`\<close> is \<open>"503"\<close>.\<close>

function dec :: "nat \<Rightarrow> string" where
  "dec n = (if n < 10 then [''0123456789'' ! n] else dec (n div 10) @ [''0123456789'' ! (n mod 10)])"
  by pat_completeness auto
termination
  by (relation "measure (\<lambda>n. n)") auto

declare dec.simps [simp del]

section \<open>Numbers\<close>

text \<open>
  JavaScript numbers are IEEE 754 doubles. \<open>dbl x\<close> is the double nearest to the real
  \<open>x\<close>: \<open>x\<close> is scaled so that its 53 leading bits stand before the point (the exponent
  is not taken below -1074, which gives the subnormal numbers), rounded to the nearest
  integer with ties going to the even one, and scaled back. A result of magnitude
  \<open>2 ^ 1024\<close> or more is \<open>Infinity\<close>; among reals the value \<open>2 ^ 1024\<close> itself, which
  is larger than every double, stands for it. \<open>bit_length n\<close> is the number of binary
  digits of \<open>n\<close>, and \<open>ilog2 x\<close> the exponent of the leading bit of a positive \<open>x\<close>.
\<close>

function bit_length :: "nat \<Rightarrow> nat" where
  "bit_length n = (if n = 0 then 0 else Suc (bit_length (n div 2)))"
  by pat_completeness auto
termination
  by (relation "measure (\<lambda>n. n)") auto

declare bit_length.simps [simp del]

definition pow2 :: "int \<Rightarrow> real" where
  "pow2 e = (if 0 \<le> e then 2 ^ nat e else 1 / 2 ^ nat (- e))"

definition ilog2 :: "real \<Rightarrow> int" where
  "ilog2 x =
     (if 1 \<le> x then int (bit_length (nat \<lfloor>x\<rfloor>)) - 1
      else - int (bit_length (nat \<lceil>1 / x\<rceil> - 1)))"

definition round_half_even :: "real \<Rightarrow> int" where
  "round_half_even y =
     (let f = \<lfloor>y\<rfloor>; d = y - real_of_int f
      in if d < 1 / 2 then f else if 1 / 2 < d then f + 1 else if even f then f else f + 1)"

definition dbl :: "real \<Rightarrow> real" where
  "dbl x =
     (if x = 0 then 0
      else let a = \<bar>x\<bar>;
               e = max (ilog2 a - 52) (- 1074);
               r = real_of_int (round_half_even (a / pow2 e)) * pow2 e;
               r' = (if 2 ^ 1024 \<le> r then 2 ^ 1024 else r)
           in if x < 0 then - r' else r')"

text \<open>The product and the sum of two doubles, as \<open>*\<close> and \<open>+\<close> compute them.\<close>

definition dmul :: "real \<Rightarrow> real \<Rightarrow> real" where
  "dmul x y = dbl (x * y)"

definition dadd :: "real \<Rightarrow> real \<Rightarrow> real" where
  "dadd x y = dbl (x + y)"

section \<open>The outbound call (axios)\<close>

text \<open>
  \<open>axios.get(url, {timeout: 10000, headers: {'User-Agent': 'RobloxAPI/1.0'}})\<close> issues one
  request and the awaited promise either fulfils with a response or rejects with an error
  object. The \<open>catch\<close> block of \<open>fetchFromRobloxAPI\<close> reads \<open>error.response\<close>,
  \<open>error.request\<close> and \<open>error.message\<close>, so these are the fields of the error.
\<close>

record outbound =
  out_method :: string
  out_url :: string
  out_timeout :: nat
  out_headers :: "(string \<times> string) list"

record axios_response =
  resp_status :: nat
  resp_statusText :: string
  resp_data :: jsval

record axios_error =
  err_response :: "axios_response option"
  err_request :: bool
  err_code :: string
  err_message :: string

datatype settled = Fulfilled axios_response | Rejected axios_error

text \<open>
  The network is a function of the request and of the time it is issued (milliseconds, as
  \<open>Date.now()\<close>): it tells how the promise settles and at what time.
\<close>

type_synonym net = "outbound \<Rightarrow> int \<Rightarrow> settled \<times> int"

definition net_const :: "settled \<Rightarrow> int \<Rightarrow> net" where
  "net_const r d = (\<lambda>req t. (r, t + d))"

text \<open>
  The rejections axios produces, by failure category. A refused connection and a timeout
  both leave \<open>error.request\<close> set and \<open>error.response\<close> unset; they differ in
  \<open>error.code\<close> and \<open>error.message\<close> only. A status outside 2xx rejects with the
  response attached. The gateway never reads \<open>error.code\<close>; for a rejected status it
  is given as axios 1.x sets it (\<open>ERR_BAD_REQUEST\<close> for 4xx, \<open>ERR_BAD_RESPONSE\<close> for
  5xx, none otherwise).
\<close>

definition refused_error :: axios_error where
  "refused_error =
     \<lparr>err_response = None, err_request = True, err_code = ''ECONNREFUSED'',
      err_message = ''connect ECONNREFUSED''\<rparr>"

definition timeout_error :: axios_error where
  "timeout_error =
     \<lparr>err_response = None, err_request = True, err_code = ''ECONNABORTED'',
      err_message = ''timeout of 10000ms exceeded''\<rparr>"

definition status_error :: "nat \<Rightarrow> string \<Rightarrow> jsval \<Rightarrow> axios_error" where
  "status_error st txt body =
     \<lparr>err_response = Some \<lparr>resp_status = st, resp_statusText = txt, resp_data = body\<rparr>,
      err_request = True,
      err_code =
        (if st div 100 = 4 then ''ERR_BAD_REQUEST''
         else if st div 100 = 5 then ''ERR_BAD_RESPONSE'' else []),
      err_message = ''Request failed with status code '' @ dec st\<rparr>"

text \<open>
  How axios settles the promise from what happened on the wire. The call is made with the
  library's defaults: \<open>validateStatus\<close> accepts the statuses from 200 to 299, and
  \<open>transformResponse\<close> tries \<open>JSON.parse\<close> on the body and, when the body does not
  parse, hands over the text as it came (\<open>silentJSONParsing\<close>). So a body is either a
  text that parses, given here by the value it parses to, or a text that does not; the
  outcome on the wire is an answer (status, status text, body), a connection that could
  not be established, or no answer within the 10000 ms.
\<close>

datatype body = Json jsval | Text string

datatype reply = Answer nat string body | Refused | TimedOut


definition validateStatus :: "nat \<Rightarrow> bool" where
  "validateStatus st \<longleftrightarrow> 200 \<le> st \<and> st < 300"





text \<open>
  The outbound call fails when no connection is made, when the time runs out, or when the
  answer carries a status outside 2xx.
\<close>

definition failed :: "reply \<Rightarrow> bool" where
  "failed x = (case x of Answer st txt b \<Rightarrow> \<not> validateStatus st | Refused \<Rightarrow> True | TimedOut \<Rightarrow> True)"

section \<open>The cache table (node-cache)\<close>

text \<open>
  \<open>const cache = new NodeCache({ stdTTL: 300 })\<close> (line 17). The library is a dependency
  of the repository and is not part of \<open>src/\<close>; the three methods the gateway calls are
  written here after node-cache's own \<open>has\<close>, \<open>get\<close>, \<open>set\<close>, \<open>_check\<close>, \<open>_wrap\<close>
  and \<open>_unwrap\<close>. The table maps a key to \<open>{t, v}\<close>: \<open>v\<close> the value, \<open>t\<close> the absolute
  expiry in milliseconds, with \<open>t = 0\<close> for an entry that never expires. A lookup of an
  entry whose time has passed deletes it (\<open>deleteOnExpire\<close>, on by default) and answers
  as if it were absent. The hit and miss counters of the library and its cloning of values
  are not modelled.

  A time-to-live is a number of seconds, a double like every JavaScript number, and \<open>0\<close>
  means no expiry. The stamp is \<open>now + ttl * 1000\<close> as the engine computes it, each
  operation rounding to a double; a stamp of \<open>2 ^ 1024\<close> or \<open>- 2 ^ 1024\<close> stands for
  \<open>Infinity\<close> or \<open>-Infinity\<close>.
\<close>

record entry =
  ent_t :: real
  ent_v :: jsval

type_synonym table = "string \<rightharpoonup> entry"

definition stdTTL :: real where
  "stdTTL = 300"

definition expired :: "entry \<Rightarrow> int \<Rightarrow> bool" where
  "expired e now \<longleftrightarrow> ent_t e \<noteq> 0 \<and> ent_t e < real_of_int now"

definition cache_check :: "table \<Rightarrow> string \<Rightarrow> entry \<Rightarrow> int \<Rightarrow> bool \<times> table" where
  "cache_check d k e now = (if expired e now then (False, d(k := None)) else (True, d))"

text \<open>
  The library keeps the entries as properties of a plain object (\<open>this.data = {}\<close>) and
  tests presence with \<open>this.data[key] != null\<close>. That read also finds what the object
  inherits from \<open>Object.prototype\<close>, so the twelve names below pass the test although
  no entry was stored under them. What is found there has no \<open>t\<close> and no \<open>v\<close>:
  \<open>_check\<close> lets it pass (\<open>undefined < Date.now()\<close> is false), \<open>has\<close> answers
  \<open>true\<close>, and \<open>get\<close> returns \<open>null\<close>, the answer of \<open>_unwrap\<close> for a value
  without \<open>v\<close>. An entry stored under a key is an own property and comes first.
\<close>

definition object_prototype_names :: "string list" where
  "object_prototype_names =
     [''constructor'', ''__defineGetter__'', ''__defineSetter__'', ''hasOwnProperty'',
      ''__lookupGetter__'', ''__lookupSetter__'', ''isPrototypeOf'', ''propertyIsEnumerable'',
      ''toString'', ''valueOf'', ''__proto__'', ''toLocaleString'']"

definition inherited :: "string \<Rightarrow> bool" where
  "inherited k \<longleftrightarrow> k \<in> set object_prototype_names"

definition cache_has :: "table \<Rightarrow> string \<Rightarrow> int \<Rightarrow> bool \<times> table" where
  "cache_has d k now =
     (case d k of
        None \<Rightarrow> (inherited k, d)
      | Some e \<Rightarrow> cache_check d k e now)"

definition cache_get :: "table \<Rightarrow> string \<Rightarrow> int \<Rightarrow> jsval \<times> table" where
  "cache_get d k now =
     (case d k of
        None \<Rightarrow> (if inherited k then JNull else JUndefined, d)
      | Some e \<Rightarrow>
          (case cache_check d k e now of
             (True, d') \<Rightarrow> (ent_v e, d')
           | (False, d') \<Rightarrow> (JUndefined, d')))"

text \<open>
  \<open>_wrap\<close>: a time-to-live of \<open>0\<close> gives the stamp \<open>0\<close>, any other gives
  \<open>now + ttl * 1000\<close>; without a time-to-live the standard one is used in the same way.
\<close>

definition cache_wrap :: "jsval \<Rightarrow> real option \<Rightarrow> int \<Rightarrow> entry" where
  "cache_wrap x ttl now =
     \<lparr>ent_t =
        (case ttl of
           Some n \<Rightarrow> if n = 0 then 0 else dadd (real_of_int now) (dmul n 1000)
         | None \<Rightarrow> if stdTTL = 0 then 0 else dadd (real_of_int now) (dmul stdTTL 1000)),
      ent_v = x\<rparr>"

definition cache_set :: "table \<Rightarrow> string \<Rightarrow> jsval \<Rightarrow> real option \<Rightarrow> int \<Rightarrow> table" where
  "cache_set d k x ttl now = d(k \<mapsto> cache_wrap x ttl now)"

text \<open>
  node-cache also sweeps the table on a timer (\<open>checkperiod\<close>, 600 s by default),
  deleting every entry whose time has passed.
\<close>

definition cache_checkData :: "table \<Rightarrow> int \<Rightarrow> table" where
  "cache_checkData d now =
     (\<lambda>k. case d k of None \<Rightarrow> None | Some e \<Rightarrow> if expired e now then None else Some e)"

text \<open>
  The table as a reader sees it at time \<open>now\<close>, which is the cache table of the
  specification: the entries whose time has not passed.
\<close>

definition live :: "table \<Rightarrow> int \<Rightarrow> table" where
  "live d now = (\<lambda>k. case d k of None \<Rightarrow> None | Some e \<Rightarrow> if expired e now then None else Some e)"

section \<open>The gateway: \<open>fetchFromRobloxAPI\<close>\<close>

text \<open>
  The state the gateway works on: the cache table, the requests sent upstream so far (in
  order), and the clock. Awaiting the outbound call moves the clock to the time the
  promise settles; the two cache lookups of a hit run in one synchronous turn and read the
  same clock value.
\<close>

record server =
  cache :: table
  sent :: "outbound list"
  clock :: int

definition axios_get_config :: "string \<Rightarrow> outbound" where
  "axios_get_config url =
     \<lparr>out_method = ''GET'', out_url = url, out_timeout = 10000,
      out_headers = [(''User-Agent'', ''RobloxAPI/1.0'')]\<rparr>"

text \<open>
  \<open>cacheKey && ...\<close> and \<open>if (cacheKey)\<close> test the argument for truthiness: \<open>null\<close> (the
  default), \<open>undefined\<close> and the empty string all count as no key.
\<close>

definition truthy_key :: "string option \<Rightarrow> string option" where
  "truthy_key cacheKey = (case cacheKey of None \<Rightarrow> None | Some k \<Rightarrow> if k = [] then None else Some k)"

text \<open>The \<open>catch\<close> block, lines 118 to 126.\<close>

definition catch_block :: "axios_error \<Rightarrow> js_error" where
  "catch_block e =
     (case err_response e of
        Some r \<Rightarrow> Error (''Roblox API error: '' @ dec (resp_status r) @ '' - '' @ resp_statusText r)
      | None \<Rightarrow>
          if err_request e then Error ''Failed to connect to Roblox API''
          else Error (''Request error: '' @ err_message e))"

text \<open>Lines 103 to 117 and the \<open>catch\<close>: the outbound call, the write to the cache, the result.\<close>

definition fetch_upstream ::
  "net \<Rightarrow> string \<Rightarrow> string option \<Rightarrow> real \<Rightarrow> server \<Rightarrow> (js_error + jsval) \<times> server" where
  "fetch_upstream net url cacheKey ttl s =
     (let req = axios_get_config url;
          (res, t') = net req (clock s);
          s' = s\<lparr>sent := sent s @ [req], clock := t'\<rparr>
      in case res of
           Fulfilled response \<Rightarrow>
             (let data = resp_data response
              in case truthy_key cacheKey of
                   Some k \<Rightarrow> (Inr data, s'\<lparr>cache := cache_set (cache s') k data (Some ttl) t'\<rparr>)
                 | None \<Rightarrow> (Inr data, s'))
         | Rejected e \<Rightarrow> (Inl (catch_block e), s'))"

text \<open>
  Lines 96 to 101. The time-to-live argument is a number of seconds (a double); \<open>None\<close>
  is the omitted argument, which takes the default 300.
\<close>

definition fetchFromRobloxAPI ::
  "net \<Rightarrow> string \<Rightarrow> string option \<Rightarrow> real option \<Rightarrow> server \<Rightarrow> (js_error + jsval) \<times> server" where
  "fetchFromRobloxAPI net url cacheKey ttl_arg s =
     (let ttl = (case ttl_arg of None \<Rightarrow> 300 | Some n \<Rightarrow> n)
      in case truthy_key cacheKey of
           None \<Rightarrow> fetch_upstream net url cacheKey ttl s
         | Some k \<Rightarrow>
             (case cache_has (cache s) k (clock s) of
                (True, d) \<Rightarrow>
                  (let (x, d') = cache_get d k (clock s) in (Inr x, s\<lparr>cache := d'\<rparr>))
              | (False, d) \<Rightarrow> fetch_upstream net url cacheKey ttl (s\<lparr>cache := d\<rparr>)))"

text \<open>
  The test of line 99, \<open>cacheKey && cache.has(cacheKey)\<close>: whether the call is served
  from the table.
\<close>

definition cache_hit :: "server \<Rightarrow> string option \<Rightarrow> bool" where
  "cache_hit s cacheKey =
     (case truthy_key cacheKey of
        None \<Rightarrow> False
      | Some k \<Rightarrow> fst (cache_has (cache s) k (clock s)))"

section \<open>Reachable states of the gateway\<close>

text \<open>
  The table starts empty and only \<open>fetchFromRobloxAPI\<close> and the library's own sweep touch
  it; between calls the clock moves.
\<close>

definition server_init :: "int \<Rightarrow> server" where
  "server_init t0 = \<lparr>cache = Map.empty, sent = [], clock = t0\<rparr>"

inductive reachable :: "server \<Rightarrow> bool" where
  start: "reachable (server_init t0)"
| call: "reachable s \<Longrightarrow> reachable (snd (fetchFromRobloxAPI net url cacheKey ttl_arg s))"
| tick: "reachable s \<Longrightarrow> reachable (s\<lparr>clock := t\<rparr>)"
| sweep: "reachable s \<Longrightarrow> reachable (s\<lparr>cache := cache_checkData (cache s) (clock s)\<rparr>)"

section \<open>Reading JavaScript values\<close>

text \<open>Truthiness, as \<open>||\<close> and \<open>!\<close> test it.\<close>

fun js_truthy :: "jsval \<Rightarrow> bool" where
  "js_truthy JUndefined = False"
| "js_truthy JNull = False"
| "js_truthy (JBool b) = b"
| "js_truthy JNaN = False"
| "js_truthy (JNum r) = (r \<noteq> 0)"
| "js_truthy JInfinity = True"
| "js_truthy JNegInfinity = True"
| "js_truthy (JStr s) = (s \<noteq> [])"
| "js_truthy (JArr xs) = True"
| "js_truthy (JObj fs) = True"

definition js_or :: "jsval \<Rightarrow> jsval \<Rightarrow> jsval" where
  "js_or a b = (if js_truthy a then a else b)"

text \<open>
  \<open>x.p\<close>: reading a property of \<open>undefined\<close> or \<open>null\<close> throws a \<open>TypeError\<close>; an
  object gives the property or \<open>undefined\<close>; arrays and strings have a \<open>length\<close>; any
  other read gives \<open>undefined\<close> (none of the names the handlers read is inherited from a
  prototype).
\<close>

fun get_prop :: "jsval \<Rightarrow> string \<Rightarrow> js_error + jsval" where
  "get_prop JUndefined p = Inl TypeError"
| "get_prop JNull p = Inl TypeError"
| "get_prop (JObj fs) p = Inr (case map_of fs p of Some x \<Rightarrow> x | None \<Rightarrow> JUndefined)"
| "get_prop (JArr xs) p = Inr (if p = ''length'' then JNum (real (length xs)) else JUndefined)"
| "get_prop (JStr s) p = Inr (if p = ''length'' then JNum (real (length s)) else JUndefined)"
| "get_prop x p = Inr JUndefined"

text \<open>\<open>x[0]\<close>.\<close>

fun get_first :: "jsval \<Rightarrow> js_error + jsval" where
  "get_first JUndefined = Inl TypeError"
| "get_first JNull = Inl TypeError"
| "get_first (JArr xs) = Inr (case xs of [] \<Rightarrow> JUndefined | x # _ \<Rightarrow> x)"
| "get_first (JStr s) = Inr (case s of [] \<Rightarrow> JUndefined | c # _ \<Rightarrow> JStr [c])"
| "get_first (JObj fs) = Inr (case map_of fs ''0'' of Some x \<Rightarrow> x | None \<Rightarrow> JUndefined)"
| "get_first x = Inr JUndefined"

definition bnd :: "js_error + 'a \<Rightarrow> ('a \<Rightarrow> js_error + 'b) \<Rightarrow> js_error + 'b" where
  "bnd m f = (case m of Inl e \<Rightarrow> Inl e | Inr x \<Rightarrow> f x)"

text \<open>
  \<open>parseInt(s)\<close> with no radix: leading white space, a sign, an optional \<open>0x\<close>, then the
  longest run of digits. \<open>parse_integer\<close> is the integer these digits denote (\<open>None\<close>
  when there is no digit), and \<open>parseInt\<close> the number the engine returns for it: the
  nearest double, \<open>Infinity\<close> beyond the doubles, \<open>NaN\<close> when there is no digit.
\<close>

definition digit_val :: "char \<Rightarrow> nat option" where
  "digit_val c =
     map_of
       [(CHR ''0'', 0), (CHR ''1'', 1), (CHR ''2'', 2), (CHR ''3'', 3), (CHR ''4'', 4),
        (CHR ''5'', 5), (CHR ''6'', 6), (CHR ''7'', 7), (CHR ''8'', 8), (CHR ''9'', 9),
        (CHR ''a'', 10), (CHR ''b'', 11), (CHR ''c'', 12), (CHR ''d'', 13), (CHR ''e'', 14),
        (CHR ''f'', 15), (CHR ''A'', 10), (CHR ''B'', 11), (CHR ''C'', 12), (CHR ''D'', 13),
        (CHR ''E'', 14), (CHR ''F'', 15)] c"

fun parse_digits :: "nat \<Rightarrow> string \<Rightarrow> nat option \<Rightarrow> nat option" where
  "parse_digits radix [] acc = acc"
| "parse_digits radix (c # cs) acc =
     (case digit_val c of
        None \<Rightarrow> acc
      | Some d \<Rightarrow>
          if d < radix
          then parse_digits radix cs (Some ((case acc of None \<Rightarrow> 0 | Some a \<Rightarrow> a) * radix + d))
          else acc)"

definition is_space :: "char \<Rightarrow> bool" where
  "is_space c \<longleftrightarrow> c \<in> set [CHR '' '', CHR 0x09, CHR 0x0A, CHR 0x0B, CHR 0x0C, CHR 0x0D]"

definition parse_integer :: "string \<Rightarrow> int option" where
  "parse_integer s =
     (let s1 = dropWhile is_space s;
          (neg, s2) =
            (case s1 of
               c # cs \<Rightarrow> if c = CHR ''-'' then (True, cs) else if c = CHR ''+'' then (False, cs) else (False, s1)
             | [] \<Rightarrow> (False, s1));
          (radix, s3) =
            (if take 2 s2 = ''0x'' \<or> take 2 s2 = ''0X'' then (16, drop 2 s2) else (10, s2))
      in case parse_digits radix s3 None of
           None \<Rightarrow> None
         | Some n \<Rightarrow> Some (if neg then - int n else int n))"

definition number_of_int :: "int \<Rightarrow> jsval" where
  "number_of_int n =
     (let r = dbl (real_of_int n)
      in if 2 ^ 1024 \<le> r then JInfinity else if r \<le> - (2 ^ 1024) then JNegInfinity else JNum r)"

definition parseInt :: "string \<Rightarrow> jsval" where
  "parseInt s = (case parse_integer s of None \<Rightarrow> JNaN | Some n \<Rightarrow> number_of_int n)"

definition show_int :: "int \<Rightarrow> string" where
  "show_int i = (if i < 0 then ''-'' @ dec (nat (- i)) else dec (nat i))"

text \<open>
  The validators the routes apply before the handlers run (express-validator, which calls
  validator.js): \<open>isNumeric()\<close> accepts the strings matching
  \<open>^[+-]?([0-9]*[.])?[0-9]+$\<close>, and \<open>isInt({min, max})\<close> those matching
  \<open>^[-+]?[0-9]+$\<close> whose value lies between the bounds; \<open>optional()\<close> lets an
  absent parameter pass.
\<close>

definition is_digit :: "char \<Rightarrow> bool" where
  "is_digit c \<longleftrightarrow> c \<in> set ''0123456789''"

definition all_digits :: "string \<Rightarrow> bool" where
  "all_digits s \<longleftrightarrow> s \<noteq> [] \<and> list_all is_digit s"

definition strip_sign :: "string \<Rightarrow> string" where
  "strip_sign s =
     (case s of
        c # cs \<Rightarrow> if c = CHR ''+'' \<or> c = CHR ''-'' then cs else s
      | [] \<Rightarrow> s)"

definition isNumeric :: "string \<Rightarrow> bool" where
  "isNumeric s =
     (let u = strip_sign s
      in case dropWhile is_digit u of
           [] \<Rightarrow> u \<noteq> []
         | c # cs \<Rightarrow> c = CHR ''.'' \<and> all_digits cs)"

definition isInt :: "int \<Rightarrow> int \<Rightarrow> string \<Rightarrow> bool" where
  "isInt lo hi s =
     (all_digits (strip_sign s)
      \<and> (case parse_integer s of None \<Rightarrow> False | Some v \<Rightarrow> lo \<le> v \<and> v \<le> hi))"

section \<open>Responses\<close>

text \<open>
  What the handlers take from the process and the engine: the environment variables
  \<open>API_KEY\<close> and \<open>NODE_ENV\<close>, \<open>Date.prototype.toISOString\<close> (applied to the clock),
  the successive draws of \<open>Math.random()\<close> within one request (each a double, at least 0
  and below 1), and the engine's answer to \<open>x > 0\<close> when \<open>x\<close> is a string, an array or
  an object (the comparison then runs through \<open>ToPrimitive\<close> and the numeric string
  grammar, which are left to the engine).
\<close>

record env =
  API_KEY :: "string option"
  NODE_ENV :: "string option"
  toISOString :: "int \<Rightarrow> string"
  Math_random :: "nat \<Rightarrow> real"
  engine_gt0 :: "jsval \<Rightarrow> js_error + bool"

record response =
  res_status :: nat
  res_body :: jsval

text \<open>
  \<open>Math.floor(Math.random() * n)\<close> for the \<open>i\<close>-th draw of the request: the product is
  rounded to a double before the floor is taken.
\<close>

definition random_below :: "env \<Rightarrow> nat \<Rightarrow> int \<Rightarrow> int" where
  "random_below e i n = \<lfloor>dmul (Math_random e i) (real_of_int n)\<rfloor>"

text \<open>
  \<open>Math.random() > c\<close> for the \<open>i\<close>-th draw, where \<open>c\<close> is a decimal literal of the
  source: the literal denotes the double nearest to it.
\<close>

definition random_above :: "env \<Rightarrow> nat \<Rightarrow> real \<Rightarrow> bool" where
  "random_above e i c \<longleftrightarrow> dbl c < Math_random e i"

text \<open>
  \<open>sendResponse\<close>, lines 75 to 82; \<open>res.json\<close> answers with status 200. An omitted
  \<open>message\<close> (\<open>None\<close>) takes the default \<open>'Success'\<close>.
\<close>

definition sendResponse :: "env \<Rightarrow> int \<Rightarrow> jsval \<Rightarrow> string option \<Rightarrow> response" where
  "sendResponse e now data message =
     \<lparr>res_status = 200,
      res_body =
        JObj [(''success'', JBool True),
              (''message'', JStr (case message of None \<Rightarrow> ''Success'' | Some m \<Rightarrow> m)),
              (''data'', data),
              (''timestamp'', JStr (toISOString e now))]\<rparr>"

text \<open>
  \<open>sendError\<close>, lines 85 to 93. An omitted \<open>code\<close> takes the default
  \<open>'UNKNOWN_ERROR'\<close>, and \<open>details\<close> takes the default \<open>null\<close> when it is omitted or
  \<open>undefined\<close>.
\<close>

definition sendError :: "env \<Rightarrow> int \<Rightarrow> nat \<Rightarrow> string \<Rightarrow> string option \<Rightarrow> jsval \<Rightarrow> response" where
  "sendError e now statusCode message code details =
     \<lparr>res_status = statusCode,
      res_body =
        JObj [(''success'', JBool False), (''error'', JStr message),
              (''code'', JStr (case code of None \<Rightarrow> ''UNKNOWN_ERROR'' | Some c \<Rightarrow> c)),
              (''details'', if details = JUndefined then JNull else details),
              (''timestamp'', JStr (toISOString e now))]\<rparr>"

text \<open>
  \<open>authenticateApiKey\<close>, lines 39 to 58: \<open>None\<close> is \<open>next()\<close>. The key offered is
  \<open>req.headers['x-api-key'] || req.query.apiKey\<close>.
\<close>

definition truthy_str :: "string option \<Rightarrow> string option" where
  "truthy_str x = (case x of None \<Rightarrow> None | Some k \<Rightarrow> if k = [] then None else Some k)"

definition authenticateApiKey :: "env \<Rightarrow> string option \<Rightarrow> string option \<Rightarrow> response option" where
  "authenticateApiKey e header_key query_key =
     (case truthy_str (API_KEY e) of
        None \<Rightarrow> None
      | Some requiredApiKey \<Rightarrow>
          (let providedApiKey =
                 (case truthy_str header_key of Some k \<Rightarrow> Some k | None \<Rightarrow> query_key)
           in if truthy_str providedApiKey = None \<or> providedApiKey \<noteq> Some requiredApiKey
              then Some \<lparr>res_status = 401,
                         res_body =
                           JObj [(''success'', JBool False),
                                 (''error'', JStr ''Invalid or missing API key''),
                                 (''code'', JStr ''INVALID_API_KEY'')]\<rparr>
              else None))"

text \<open>
  \<open>handleValidationErrors\<close>, lines 61 to 72, on \<open>validationResult(req).array()\<close>.
\<close>

definition handleValidationErrors :: "jsval list \<Rightarrow> response option" where
  "handleValidationErrors errors =
     (if errors \<noteq> []
      then Some \<lparr>res_status = 400,
                 res_body =
                   JObj [(''success'', JBool False), (''error'', JStr ''Validation failed''),
                         (''code'', JStr ''VALIDATION_ERROR''), (''details'', JArr errors)]\<rparr>
      else None)"

text \<open>The body the rate limiter is configured to answer with, lines 28 to 31.\<close>

definition limiter_message :: jsval where
  "limiter_message =
     JObj [(''error'', JStr ''Too many requests from this IP, please try again later.''),
           (''code'', JStr ''RATE_LIMIT_EXCEEDED'')]"

text \<open>The 404 handler, lines 541 to 556, and the global error handler, lines 559 to 563.\<close>

definition not_found_handler :: "env \<Rightarrow> int \<Rightarrow> response" where
  "not_found_handler e now =
     sendError e now 404 ''Endpoint not found'' (Some ''ENDPOINT_NOT_FOUND'')
       (JObj [(''availableEndpoints'',
               JArr [JStr ''GET /health'', JStr ''GET /player/:userId'',
                     JStr ''GET /game/:gameId/stats'', JStr ''GET /group/:groupId'',
                     JStr ''GET /avatar/:userId'', JStr ''GET /asset/:assetId'',
                     JStr ''GET /limited/:assetId'', JStr ''GET /mutual/:userId/:otherUserId'',
                     JStr ''GET /leaderboard/:gameId'', JStr ''GET /events/latest''])])"

definition global_error_handler :: "env \<Rightarrow> int \<Rightarrow> string \<Rightarrow> response" where
  "global_error_handler e now error_message =
     sendError e now 500 ''Internal server error'' (Some ''INTERNAL_ERROR'')
       (if NODE_ENV e = Some ''development'' then JStr error_message else JUndefined)"

text \<open>
  A field of a body as the client receives it: \<open>JSON.stringify\<close> leaves out the
  properties whose value is \<open>undefined\<close>.
\<close>

definition has_field :: "jsval \<Rightarrow> string \<Rightarrow> bool" where
  "has_field body f =
     (case body of
        JObj fs \<Rightarrow> (case map_of fs f of None \<Rightarrow> False | Some x \<Rightarrow> x \<noteq> JUndefined)
      | _ \<Rightarrow> False)"

definition field :: "jsval \<Rightarrow> string \<Rightarrow> jsval" where
  "field body f = (case body of JObj fs \<Rightarrow> (case map_of fs f of None \<Rightarrow> JUndefined | Some x \<Rightarrow> x) | _ \<Rightarrow> JUndefined)"

section \<open>\<open>GET /player/:userId\<close>\<close>

text \<open>\<open>x > 0\<close>, line 165.\<close>

fun js_gt0 :: "env \<Rightarrow> jsval \<Rightarrow> js_error + bool" where
  "js_gt0 e JUndefined = Inr False"
| "js_gt0 e JNull = Inr False"
| "js_gt0 e (JBool b) = Inr b"
| "js_gt0 e JNaN = Inr False"
| "js_gt0 e (JNum r) = Inr (0 < r)"
| "js_gt0 e JInfinity = Inr True"
| "js_gt0 e JNegInfinity = Inr False"
| "js_gt0 e x = engine_gt0 e x"

text \<open>
  Lines 164 to 167, on the two results of \<open>Promise.allSettled\<close> (\<open>Inr\<close> is
  \<open>fulfilled\<close>, \<open>Inl\<close> is \<open>rejected\<close>).
\<close>

definition friendsCount_of :: "js_error + jsval \<Rightarrow> js_error + jsval" where
  "friendsCount_of friendsData =
     (case friendsData of
        Inr x \<Rightarrow> get_prop x ''count''
      | Inl reason \<Rightarrow> Inr (JNum 0))"

definition default_thumbnail :: "string \<Rightarrow> jsval" where
  "default_thumbnail userId = JStr (''https://www.roblox.com/headshot-thumbnail/image?userId='' @ userId)"

definition avatarThumbnail_of :: "env \<Rightarrow> string \<Rightarrow> js_error + jsval \<Rightarrow> js_error + jsval" where
  "avatarThumbnail_of e userId avatarData =
     (case avatarData of
        Inl reason \<Rightarrow> Inr (default_thumbnail userId)
      | Inr x \<Rightarrow>
          bnd (get_prop x ''data'') (\<lambda>d.
          bnd (get_prop d ''length'') (\<lambda>n.
          bnd (js_gt0 e n) (\<lambda>b.
            if b then bnd (get_first d) (\<lambda>first. get_prop first ''imageUrl'')
            else Inr (default_thumbnail userId)))))"

text \<open>The object of lines 169 to 179.\<close>

definition player_data :: "string \<Rightarrow> jsval \<Rightarrow> jsval \<Rightarrow> jsval \<Rightarrow> js_error + jsval" where
  "player_data userId userInfo friendsCount avatarThumbnail =
     bnd (get_prop userInfo ''displayName'') (\<lambda>displayName.
     bnd (get_prop userInfo ''name'') (\<lambda>name.
     bnd (get_prop userInfo ''description'') (\<lambda>description.
     bnd (get_prop userInfo ''created'') (\<lambda>created.
     bnd (get_prop userInfo ''isBanned'') (\<lambda>isBanned.
     bnd (get_prop userInfo ''hasVerifiedBadge'') (\<lambda>hasVerifiedBadge.
       Inr (JObj [(''userId'', parseInt userId),
                  (''username'', js_or displayName name),
                  (''displayName'', displayName),
                  (''description'', js_or description (JStr [])),
                  (''created'', created),
                  (''isBanned'', js_or isBanned (JBool False)),
                  (''friendsCount'', friendsCount),
                  (''avatarThumbnail'', avatarThumbnail),
                  (''hasVerifiedBadge'', js_or hasVerifiedBadge (JBool False))])))))))"

text \<open>The mock object of lines 183 to 193.\<close>

definition player_mock :: "env \<Rightarrow> string \<Rightarrow> jsval" where
  "player_mock e userId =
     JObj [(''userId'', parseInt userId),
           (''username'', JStr (''Player'' @ userId)),
           (''displayName'', JStr (''Player'' @ userId)),
           (''description'', JStr ''A Roblox player''),
           (''created'', JStr ''2020-01-01T00:00:00.000Z''),
           (''isBanned'', JBool False),
           (''friendsCount'', JNum (real_of_int (random_below e 0 1000))),
           (''avatarThumbnail'',
            JStr (''https://www.roblox.com/headshot-thumbnail/image?userId='' @ userId
                  @ ''&width=150&height=150'')),
           (''hasVerifiedBadge'', JBool False)]"

definition users_url :: "string \<Rightarrow> string" where
  "users_url userId = ''https://users.roblox.com/v1/users/'' @ userId"

definition friends_url :: "string \<Rightarrow> string" where
  "friends_url userId = ''https://friends.roblox.com/v1/users/'' @ userId @ ''/friends/count''"

definition headshot_url :: "string \<Rightarrow> string" where
  "headshot_url userId =
     ''https://thumbnails.roblox.com/v1/users/avatar-headshot?userIds='' @ userId
     @ ''&size=150x150&format=Png''"

text \<open>
  Lines 159 to 179 after the main fetch has returned \<open>userInfo\<close>: the two auxiliary
  fetches are started one after the other at the same time and awaited together, then the
  two fields and the object are computed; a throw anywhere gives \<open>Inl\<close>.
\<close>

definition player_build ::
  "env \<Rightarrow> net \<Rightarrow> string \<Rightarrow> jsval \<Rightarrow> server \<Rightarrow> (js_error + jsval) \<times> server" where
  "player_build e net userId userInfo s1 =
     (let (friendsData, s2) = fetchFromRobloxAPI net (friends_url userId) None None s1;
          (avatarData, s3) =
            fetchFromRobloxAPI net (headshot_url userId) None None (s2\<lparr>clock := clock s1\<rparr>);
          s4 = s3\<lparr>clock := max (clock s2) (clock s3)\<rparr>
      in (bnd (friendsCount_of friendsData) (\<lambda>friendsCount.
          bnd (avatarThumbnail_of e userId avatarData) (\<lambda>avatarThumbnail.
            player_data userId userInfo friendsCount avatarThumbnail)), s4))"

text \<open>
  The handler, lines 146 to 198, for a request that passed \<open>authenticateApiKey\<close> and the
  validation. The inner \<open>try\<close> covers the main fetch, the auxiliary fetches and the
  building of the object; its \<open>catch\<close> answers with the mock object. Nothing in either
  branch makes \<open>sendResponse\<close> throw, so the outer \<open>catch\<close> (line 195) is never entered.
\<close>

definition player_handler :: "env \<Rightarrow> net \<Rightarrow> string \<Rightarrow> server \<Rightarrow> response \<times> server" where
  "player_handler e net userId s =
     (let cacheKey = ''player_'' @ userId;
          (main, s1) = fetchFromRobloxAPI net (users_url userId) (Some cacheKey) None s
      in case main of
           Inl apiError \<Rightarrow> (sendResponse e (clock s1) (player_mock e userId) None, s1)
         | Inr userInfo \<Rightarrow>
             (case player_build e net userId userInfo s1 of
                (Inr data, s4) \<Rightarrow> (sendResponse e (clock s4) data None, s4)
              | (Inl apiError, s4) \<Rightarrow>
                  (sendResponse e (clock s4) (player_mock e userId) None, s4)))"

section \<open>\<open>GET /asset/:assetId\<close> and \<open>GET /leaderboard/:gameId\<close>\<close>

text \<open>The object of lines 371 to 391; the draws are numbered in the order they are made.\<close>

definition asset_data :: "env \<Rightarrow> int \<Rightarrow> string \<Rightarrow> jsval" where
  "asset_data e now assetId =
     JObj [(''assetId'', parseInt assetId),
           (''name'', JStr (''Asset '' @ assetId)),
           (''description'', JStr ''A Roblox asset''),
           (''assetType'', JObj [(''id'', JNum 1), (''name'', JStr ''T-Shirt'')]),
           (''creator'', JObj [(''id'', JNum 1), (''name'', JStr ''Creator''), (''type'', JStr ''User'')]),
           (''price'', JNum (real_of_int (random_below e 0 1000))),
           (''isLimited'', JBool (random_above e 1 0.8)),
           (''isLimitedUnique'', JBool (random_above e 2 0.95)),
           (''remaining'', JNum (real_of_int (random_below e 3 100))),
           (''sales'', JNum (real_of_int (random_below e 4 10000))),
           (''created'', JStr ''2021-01-01T00:00:00.000Z''),
           (''updated'', JStr (toISOString e now))]"

definition asset_handler :: "env \<Rightarrow> net \<Rightarrow> string \<Rightarrow> server \<Rightarrow> response \<times> server" where
  "asset_handler e net assetId s =
     (sendResponse e (clock s) (asset_data e (clock s) assetId) None, s)"

text \<open>
  Lines 479 to 498. \<open>limit\<close> is \<open>parseInt(req.query.limit) || 50\<close>, where an absent
  parameter is \<open>undefined\<close> and parses to \<open>NaN\<close>; \<open>Array.from({length: limit}, f)\<close>
  builds \<open>f\<close> of \<open>0\<close> up to \<open>limit - 1\<close>, with three draws for each element. The
  handler runs after the validation, so \<open>limit\<close> is a whole number from 1 to 100 here
  (or the default 50) and the sums and products of line 489 are exact; the model follows
  the source for these requests.
\<close>

definition leaderboard_limit :: "string option \<Rightarrow> jsval" where
  "leaderboard_limit q = js_or (case q of None \<Rightarrow> JNaN | Some x \<Rightarrow> parseInt x) (JNum 50)"

definition array_length :: "jsval \<Rightarrow> nat" where
  "array_length x = (case x of JNum r \<Rightarrow> nat \<lfloor>r\<rfloor> | _ \<Rightarrow> 0)"

definition number_value :: "jsval \<Rightarrow> real" where
  "number_value x = (case x of JNum r \<Rightarrow> r | _ \<Rightarrow> 0)"

definition leaderboard_entry :: "env \<Rightarrow> jsval \<Rightarrow> nat \<Rightarrow> jsval" where
  "leaderboard_entry e limit i =
     JObj [(''rank'', JNum (real (i + 1))),
           (''player'',
            JObj [(''id'', JNum (real_of_int (random_below e (3 * i) 1000000))),
                  (''username'', JStr (''Player'' @ dec (i + 1))),
                  (''displayName'', JStr (''Top Player '' @ dec (i + 1)))]),
           (''score'',
            JNum (dadd (real_of_int (random_below e (3 * i + 1) 1000000))
                       (dmul (number_value limit - real i) 1000))),
           (''avatarThumbnail'',
            JStr (''https://www.roblox.com/headshot-thumbnail/image?userId=''
                  @ show_int (random_below e (3 * i + 2) 1000000) @ ''&width=150&height=150''))]"

definition leaderboard_data :: "env \<Rightarrow> int \<Rightarrow> string \<Rightarrow> string option \<Rightarrow> jsval" where
  "leaderboard_data e now gameId q =
     (let limit = leaderboard_limit q;
          leaderboard = map (leaderboard_entry e limit) [0 ..< array_length limit]
      in JObj [(''gameId'', parseInt gameId),
               (''leaderboard'', JArr leaderboard),
               (''totalEntries'', limit),
               (''lastUpdated'', JStr (toISOString e now))])"

definition leaderboard_handler ::
  "env \<Rightarrow> net \<Rightarrow> string \<Rightarrow> string option \<Rightarrow> server \<Rightarrow> response \<times> server" where
  "leaderboard_handler e net gameId q s =
     (sendResponse e (clock s) (leaderboard_data e (clock s) gameId q) None, s)"

text \<open>
  What a request for the leaderboard asks for: no \<open>limit\<close> parameter and the default of
  50 entries, or a parameter that passes \<open>isInt({min: 1, max: 100})\<close> and denotes \<open>n\<close>.
\<close>

definition limit_asks :: "string option \<Rightarrow> nat \<Rightarrow> bool" where
  "limit_asks q n =
     (case q of
        None \<Rightarrow> n = 50
      | Some x \<Rightarrow> isInt 1 100 x \<and> parse_integer x = Some (int n))"

section \<open>Sample inputs\<close>

text \<open>
  Concrete documents, networks and states for the worked instances below. \<open>server_A\<close> is
  the state after \<open>fetch("https://upstream/x", "player_1", 300)\<close> returned \<open>{name: "A"}\<close>
  at time 0; \<open>server_zero_ttl\<close> is the same call made with a time-to-live of 0, and
  \<open>server_stamp_zero\<close> the same call made with a time-to-live of -1 and answered at time
  1000. In \<open>sample_env\<close> the first draw of \<open>Math.random()\<close> is the double
  \<open>553942754166571 / 2 ^ 52\<close> (a little below 0.123), the second is the double the
  literal \<open>0.8\<close> denotes, the third is the double next above the one the literal
  \<open>0.95\<close> denotes, and every other draw is 0.5; the date is printed as its count of
  milliseconds. In \<open>half_env\<close> every draw is 0.5. \<open>doc_user\<close> is a user record as
  the users service returns it.
\<close>

definition doc_A :: jsval where
  "doc_A = JObj [(''name'', JStr ''A'')]"

definition doc_B :: jsval where
  "doc_B = JObj [(''name'', JStr ''B'')]"

definition doc_user :: jsval where
  "doc_user =
     JObj [(''description'', JStr ''hello''), (''created'', JStr ''2006-02-27T21:06:40.3Z''),
           (''isBanned'', JBool False), (''hasVerifiedBadge'', JBool True), (''id'', JNum 1),
           (''name'', JStr ''Roblox''), (''displayName'', JStr ''Builderman'')]"

definition ok_response :: "jsval \<Rightarrow> axios_response" where
  "ok_response x = \<lparr>resp_status = 200, resp_statusText = ''OK'', resp_data = x\<rparr>"

definition net_ok :: "jsval \<Rightarrow> int \<Rightarrow> net" where
  "net_ok x d = net_const (Fulfilled (ok_response x)) d"

definition net_fail :: "axios_error \<Rightarrow> int \<Rightarrow> net" where
  "net_fail err d = net_const (Rejected err) d"

definition net_table :: "(string \<times> settled) list \<Rightarrow> int \<Rightarrow> net" where
  "net_table routes d =
     (\<lambda>req t. (case map_of routes (out_url req) of Some r \<Rightarrow> r | None \<Rightarrow> Rejected refused_error, t + d))"

definition server_A :: server where
  "server_A =
     snd (fetchFromRobloxAPI (net_ok doc_A 0) ''https://upstream/x'' (Some ''player_1'') (Some 300)
            (server_init 0))"

definition server_zero_ttl :: server where
  "server_zero_ttl =
     snd (fetchFromRobloxAPI (net_ok doc_A 0) ''https://upstream/x'' (Some ''player_1'') (Some 0)
            (server_init 0))"

definition sample_env :: env where
  "sample_env =
     \<lparr>API_KEY = None, NODE_ENV = None, toISOString = show_int,
      Math_random =
        (\<lambda>i. if i = 0 then 553942754166571 / 4503599627370496
             else if i = 1 then 3602879701896397 / 4503599627370496
             else if i = 2 then 4278419646001972 / 4503599627370496
             else 1 / 2),
      engine_gt0 = (\<lambda>x. Inr False)\<rparr>"

definition half_env :: env where
  "half_env = sample_env\<lparr>Math_random := (\<lambda>i. 1 / 2)\<rparr>"

definition net_only_user :: net where
  "net_only_user = net_table [(users_url ''1'', Fulfilled (ok_response doc_user))] 0"

definition net_all_up :: net where
  "net_all_up =
     net_table
       [(users_url ''1'', Fulfilled (ok_response doc_user)),
        (friends_url ''1'', Fulfilled (ok_response (JObj [(''count'', JNum 3)]))),
        (headshot_url ''1'',
         Fulfilled (ok_response (JObj [(''data'', JArr [JObj [(''imageUrl'', JStr ''https://t/1.png'')]])])))] 0"

definition net_empty_avatar :: net where
  "net_empty_avatar =
     net_table
       [(users_url ''1'', Fulfilled (ok_response doc_A)),
        (friends_url ''1'', Fulfilled (ok_response (JObj [(''count'', JNum 3)]))),
        (headshot_url ''1'', Fulfilled (ok_response (JObj [])))] 0"

definition net_friends_down_empty_avatar :: net where
  "net_friends_down_empty_avatar =
     net_table
       [(users_url ''1'', Fulfilled (ok_response doc_A)),
        (headshot_url ''1'', Fulfilled (ok_response (JObj [])))] 0"

definition net_null_user :: net where
  "net_null_user = net_table [(users_url ''1'', Fulfilled (ok_response JNull))] 0"

definition server_stamp_zero :: server where
  "server_stamp_zero =
     snd (fetchFromRobloxAPI (net_ok doc_A 1000) ''https://upstream/x'' (Some ''player_1'') (Some (- 1))
            (server_init 0))"

section \<open>Facts about numbers\<close>

text \<open>Whole numbers of magnitude below \<open>2 ^ 53\<close> are doubles: rounding leaves them as they are.\<close>

lemma bit_length_le: "n < 2 ^ k \<Longrightarrow> bit_length n \<le> k"
proof (induction k arbitrary: n)
  case 0
  then show ?case by (simp add: bit_length.simps)
next
  case (Suc k)
  have "n div 2 < 2 ^ k" using Suc.prems by auto
  then have "bit_length (n div 2) \<le> k" by (rule Suc.IH)
  then show ?case by (simp add: bit_length.simps[of n])
qed

lemma bit_length_pos: "0 < n \<Longrightarrow> 0 < bit_length n"
  by (simp add: bit_length.simps[of n])

lemma round_half_even_int: "round_half_even (real_of_int m) = m"
  by (simp add: round_half_even_def)

lemma pow2_neg_nat: "pow2 (- int d) = 1 / 2 ^ d"
proof (cases "d = 0")
  case True
  then show ?thesis unfolding pow2_def by simp
next
  case False
  then show ?thesis unfolding pow2_def by simp
qed

lemma dbl_nat_exact:
  assumes "0 < n" and "n < 2 ^ 53"
  shows "dbl (real n) = real n"
proof -
  define L where "L = bit_length n"
  have L1: "1 \<le> L" using bit_length_pos[OF assms(1)] by (simp add: L_def)
  have L53: "L \<le> 53" using bit_length_le[OF assms(2)] by (simp add: L_def)
  have il: "ilog2 (real n) = int L - 1"
    using assms(1) by (simp add: ilog2_def L_def)
  have e: "max (ilog2 (real n) - 52) (- 1074) = - int (53 - L)"
    using L1 L53 by (simp add: il)
  have p: "pow2 (- int (53 - L)) = 1 / 2 ^ (53 - L)"
    by (rule pow2_neg_nat)
  have q: "real n / pow2 (- int (53 - L)) = real_of_int (int (n * 2 ^ (53 - L)))"
    by (simp add: p)
  have r: "real_of_int (round_half_even (real n / pow2 (- int (53 - L)))) * pow2 (- int (53 - L)) = real n"
    unfolding q round_half_even_int by (simp add: p)
  have "real n < 2 ^ 53" using assms(2)
    by (metis of_nat_less_iff of_nat_numeral of_nat_power)
  also have "\<dots> \<le> (2::real) ^ 1024" by simp
  finally have big: "\<not> (2::real) ^ 1024 \<le> real n" by simp
  show ?thesis
    using assms(1) big by (simp add: dbl_def Let_def e r)
qed

lemma dbl_neg: "dbl (- x) = - dbl x"
  by (simp add: dbl_def Let_def)

lemma dbl_int_exact:
  assumes "\<bar>n\<bar> < 2 ^ 53"
  shows "dbl (real_of_int n) = real_of_int n"
proof (cases "n = 0")
  case True
  then show ?thesis by (simp add: dbl_def)
next
  case False
  have nn: "nat \<bar>n\<bar> < 2 ^ 53" using assms by (simp add: nat_less_iff)
  have pos: "0 < nat \<bar>n\<bar>" using False by simp
  have ex: "dbl (real (nat \<bar>n\<bar>)) = real (nat \<bar>n\<bar>)"
    by (rule dbl_nat_exact[OF pos nn])
  show ?thesis
  proof (cases "0 \<le> n")
    case True
    then show ?thesis using ex by simp
  next
    case False
    then have "real_of_int n = - real (nat \<bar>n\<bar>)" by simp
    then show ?thesis using ex dbl_neg by metis
  qed
qed

lemma dbl_zero: "dbl 0 = 0"
  by (simp add: dbl_def)

lemma dbl_one: "dbl 1 = 1"
  using dbl_int_exact[of 1] by simp

lemma dbl_numeral: "\<bar>numeral k :: int\<bar> < 2 ^ 53 \<Longrightarrow> dbl (numeral k) = numeral k"
  using dbl_int_exact[of "numeral k"] by simp

lemma dbl_neg_numeral: "\<bar>numeral k :: int\<bar> < 2 ^ 53 \<Longrightarrow> dbl (- numeral k) = - numeral k"
  by (simp add: dbl_neg dbl_numeral)

lemma dmul_int_exact:
  "\<bar>a * b\<bar> < 2 ^ 53 \<Longrightarrow> dmul (real_of_int a) (real_of_int b) = real_of_int (a * b)"
  using dbl_int_exact[of "a * b"] by (simp add: dmul_def)

lemma dadd_int_exact:
  "\<bar>a + b\<bar> < 2 ^ 53 \<Longrightarrow> dadd (real_of_int a) (real_of_int b) = real_of_int (a + b)"
  using dbl_int_exact[of "a + b"] by (simp add: dadd_def)

text \<open>
  The stamp of an entry, for a whole number \<open>n\<close> of seconds and as long as the numbers
  involved stay below \<open>2 ^ 53\<close>: the arrival time plus \<open>1000 n\<close>.
\<close>

lemma stamp_exact:
  assumes "\<bar>n * 1000\<bar> < 2 ^ 53" and "\<bar>t + n * 1000\<bar> < 2 ^ 53"
  shows "dadd (real_of_int t) (dmul (real_of_int n) 1000) = real_of_int (t + n * 1000)"
proof -
  have "dmul (real_of_int n) 1000 = real_of_int (n * 1000)"
    using dmul_int_exact[of n 1000] assms(1) by simp
  then show ?thesis
    using dadd_int_exact[of t "n * 1000"] assms(2) by simp
qed

lemma stamp_default: "\<bar>t + 300000\<bar> < 2 ^ 53 \<Longrightarrow> dadd (real_of_int t) (dmul 300 1000) = real_of_int (t + 300000)"
  using stamp_exact[of 300 t] by simp

lemma number_of_int_small: "\<bar>n\<bar> < 2 ^ 53 \<Longrightarrow> number_of_int n = JNum (real_of_int n)"
proof -
  assume a: "\<bar>n\<bar> < 2 ^ 53"
  have "\<bar>real_of_int n\<bar> < 2 ^ 53"
    using a by (metis of_int_abs of_int_less_iff of_int_numeral of_int_power)
  moreover have "(2::real) ^ 53 \<le> 2 ^ 1024" by simp
  ultimately have "\<not> 2 ^ 1024 \<le> real_of_int n" "\<not> real_of_int n \<le> - (2 ^ 1024)"
    by linarith+
  then show ?thesis
    by (simp add: number_of_int_def dbl_int_exact[OF a])
qed

lemma parseInt_small:
  "parse_integer s = Some n \<Longrightarrow> \<bar>n\<bar> < 2 ^ 53 \<Longrightarrow> parseInt s = JNum (real_of_int n)"
  by (simp add: parseInt_def number_of_int_small)

text \<open>Rounding, step by step, for the numbers of the worked instances.\<close>

lemma dbl_pos_eval:
  "0 < x \<Longrightarrow> ilog2 x = E \<Longrightarrow> max (E - 52) (- 1074) = e \<Longrightarrow>
   round_half_even (x / pow2 e) = q \<Longrightarrow> real_of_int q * pow2 e < 2 ^ 1024 \<Longrightarrow>
   dbl x = real_of_int q * pow2 e"
  by (simp add: dbl_def Let_def)

lemma dbl_draw: "dbl (553942754166571000 / 2 ^ 52) = 123"
proof -
  have "dbl (553942754166571000 / 2 ^ 52) = real_of_int 8655355533852672 * pow2 (- 46)"
  proof (rule dbl_pos_eval[where E=6])
    show "(0::real) < 553942754166571000 / 2 ^ 52" by simp
    show "ilog2 (553942754166571000 / 2 ^ 52) = 6" by (simp add: ilog2_def bit_length.simps)
    show "max (6 - 52) (- 1074) = (- 46::int)" by simp
    show "round_half_even (553942754166571000 / 2 ^ 52 / pow2 (- 46)) = 8655355533852672"
      by (simp add: pow2_def round_half_even_def Let_def)
    show "real_of_int 8655355533852672 * pow2 (- 46) < 2 ^ 1024" by (simp add: pow2_def)
  qed
  then show ?thesis by (simp add: pow2_def)
qed

lemma dmul_draw: "dmul (553942754166571 / 4503599627370496) 1000 = 123"
proof -
  have "553942754166571 / 4503599627370496 * 1000 = (553942754166571000 / 2 ^ 52 :: real)"
    by simp
  then show ?thesis
    by (simp only: dmul_def dbl_draw)
qed

lemma real_floor_draw: "\<lfloor>553942754166571 / 4503599627370496 * 1000 :: real\<rfloor> = 122"
  by simp

lemma dbl_literal_08: "dbl 0.8 = 3602879701896397 / 4503599627370496"
proof -
  have "dbl (8 / 10) = real_of_int 7205759403792794 * pow2 (- 53)"
  proof (rule dbl_pos_eval[where E="- 1"])
    show "(0::real) < 8 / 10" by simp
    show "ilog2 (8 / 10) = - 1" by (simp add: ilog2_def bit_length.simps)
    show "max (- 1 - 52) (- 1074) = (- 53::int)" by simp
    show "round_half_even (8 / 10 / pow2 (- 53)) = 7205759403792794"
      by (simp add: pow2_def round_half_even_def Let_def)
    show "real_of_int 7205759403792794 * pow2 (- 53) < 2 ^ 1024" by (simp add: pow2_def)
  qed
  then show ?thesis by (simp add: pow2_def)
qed

lemma dbl_literal_095: "dbl 0.95 = 4278419646001971 / 4503599627370496"
proof -
  have "dbl (95 / 100) = real_of_int 8556839292003942 * pow2 (- 53)"
  proof (rule dbl_pos_eval[where E="- 1"])
    show "(0::real) < 95 / 100" by simp
    show "ilog2 (95 / 100) = - 1" by (simp add: ilog2_def bit_length.simps)
    show "max (- 1 - 52) (- 1074) = (- 53::int)" by simp
    show "round_half_even (95 / 100 / pow2 (- 53)) = 8556839292003942"
      by (simp add: pow2_def round_half_even_def Let_def)
    show "real_of_int 8556839292003942 * pow2 (- 53) < 2 ^ 1024" by (simp add: pow2_def)
  qed
  then show ?thesis by (simp add: pow2_def)
qed

lemma dbl_above_2_53: "dbl 9007199254740993 = 9007199254740992"
proof -
  have "dbl 9007199254740993 = real_of_int 4503599627370496 * pow2 1"
  proof (rule dbl_pos_eval[where E=53])
    show "(0::real) < 9007199254740993" by simp
    show "ilog2 9007199254740993 = 53" by (simp add: ilog2_def bit_length.simps)
    show "max (53 - 52) (- 1074) = (1::int)" by simp
    show "round_half_even (9007199254740993 / pow2 1) = 4503599627370496"
      by (simp add: pow2_def round_half_even_def Let_def)
    show "real_of_int 4503599627370496 * pow2 1 < 2 ^ 1024" by (simp add: pow2_def)
  qed
  then show ?thesis by (simp add: pow2_def)
qed

lemma dbl_long_ttl: "dbl 9007199254740992000 = 9007199254740992000"
proof -
  have "dbl 9007199254740992000 = real_of_int 8796093022208000 * pow2 10"
  proof (rule dbl_pos_eval[where E=62])
    show "(0::real) < 9007199254740992000" by simp
    show "ilog2 9007199254740992000 = 62" by (simp add: ilog2_def bit_length.simps)
    show "max (62 - 52) (- 1074) = (10::int)" by simp
    show "round_half_even (9007199254740992000 / pow2 10) = 8796093022208000"
      by (simp add: pow2_def round_half_even_def Let_def)
    show "real_of_int 8796093022208000 * pow2 10 < 2 ^ 1024" by (simp add: pow2_def)
  qed
  then show ?thesis by (simp add: pow2_def)
qed

lemma dbl_long_stamp: "dbl 9007199254740992012 = 9007199254740992000"
proof -
  have "dbl 9007199254740992012 = real_of_int 8796093022208000 * pow2 10"
  proof (rule dbl_pos_eval[where E=62])
    show "(0::real) < 9007199254740992012" by simp
    show "ilog2 9007199254740992012 = 62" by (simp add: ilog2_def bit_length.simps)
    show "max (62 - 52) (- 1074) = (10::int)" by simp
    show "round_half_even (9007199254740992012 / pow2 10) = 8796093022208000"
      by (simp add: pow2_def round_half_even_def Let_def)
    show "real_of_int 8796093022208000 * pow2 10 < 2 ^ 1024" by (simp add: pow2_def)
  qed
  then show ?thesis by (simp add: pow2_def)
qed

lemma long_stamp: "dadd 12 (dmul 9007199254740992 1000) = 9007199254740992000"
  by (simp add: dadd_def dmul_def dbl_long_ttl dbl_long_stamp)

text \<open>The same facts in the form the simplifier brings the arguments to.\<close>

lemma dbl_draw_reduced: "dbl (69242844270821375 / 562949953421312) = 123"
  using dbl_draw by simp

lemma dbl_literal_08_reduced: "dbl (4 / 5) = 3602879701896397 / 4503599627370496"
  using dbl_literal_08 by simp

lemma dbl_literal_095_reduced: "dbl (19 / 20) = 4278419646001971 / 4503599627370496"
  using dbl_literal_095 by simp

section \<open>Facts about the cache and the gateway\<close>

lemma truthy_key_Some: "truthy_key ck = Some k \<longleftrightarrow> ck = Some k \<and> k \<noteq> []"
  by (auto simp: truthy_key_def split: option.splits)

lemma cache_has_cases:
  "cache_has d k now =
     (case d k of
        None \<Rightarrow> (inherited k, d)
      | Some e \<Rightarrow> if expired e now then (False, d(k := None)) else (True, d))"
  by (simp add: cache_has_def cache_check_def split: option.splits)

lemma cache_get_live:
  "d k = Some e \<Longrightarrow> \<not> expired e now \<Longrightarrow> cache_get d k now = (ent_v e, d)"
  by (simp add: cache_get_def cache_check_def)

lemma cache_get_inherited:
  "d k = None \<Longrightarrow> inherited k \<Longrightarrow> cache_get d k now = (JNull, d)"
  by (simp add: cache_get_def)


lemma live_None_iff:
  "live d now k = None \<longleftrightarrow> (case d k of None \<Rightarrow> True | Some e \<Rightarrow> expired e now)"
  by (simp add: live_def split: option.splits)



text \<open>
  The ways a call can go: no key; a key with a live entry; a key with no entry that names
  something the table object inherits; a key with no entry or with one whose time has
  passed.
\<close>

lemma fetch_cases:
  "fetchFromRobloxAPI net url ck ttl_arg s =
     (case truthy_key ck of
        None \<Rightarrow> fetch_upstream net url ck (case ttl_arg of None \<Rightarrow> 300 | Some n \<Rightarrow> n) s
      | Some k \<Rightarrow>
          (case cache s k of
             None \<Rightarrow>
               if inherited k then (Inr JNull, s)
               else fetch_upstream net url ck (case ttl_arg of None \<Rightarrow> 300 | Some n \<Rightarrow> n) s
           | Some e \<Rightarrow>
               if expired e (clock s)
               then fetch_upstream net url ck (case ttl_arg of None \<Rightarrow> 300 | Some n \<Rightarrow> n)
                      (s\<lparr>cache := (cache s)(k := None)\<rparr>)
               else (Inr (ent_v e), s)))"
  by (simp add: fetchFromRobloxAPI_def cache_has_cases cache_get_live cache_get_inherited
           split: option.splits)

lemma cache_hit_iff:
  "cache_hit s ck \<longleftrightarrow>
     (case truthy_key ck of
        None \<Rightarrow> False
      | Some k \<Rightarrow> (case cache s k of None \<Rightarrow> inherited k | Some e \<Rightarrow> \<not> expired e (clock s)))"
  by (simp add: cache_hit_def cache_has_cases split: option.splits)

lemma fetch_served:
  "cache_hit s ck \<Longrightarrow>
   sent (snd (fetchFromRobloxAPI net url ck ttl_arg s)) = sent s
   \<and> cache (snd (fetchFromRobloxAPI net url ck ttl_arg s)) = cache s"
  by (auto simp: cache_hit_iff fetch_cases split: option.splits)

text \<open>
  On the table of a fresh server a call under an inherited name is answered \<open>null\<close>
  without any request.
\<close>

lemma fetch_inherited_name:
  "fetchFromRobloxAPI net url (Some ''constructor'') ttl_arg (server_init t0) = (Inr JNull, server_init t0)"
  by (simp add: fetch_cases truthy_key_def server_init_def inherited_def object_prototype_names_def)

text \<open>A call that is not served from the table: its result, its request, its writes.\<close>

lemma fetch_miss:
  assumes "\<not> cache_hit s ck"
  shows "fst (fetchFromRobloxAPI net url ck ttl_arg s)
           = (case fst (net (axios_get_config url) (clock s)) of
                Fulfilled r \<Rightarrow> Inr (resp_data r) | Rejected e \<Rightarrow> Inl (catch_block e))"
    and "sent (snd (fetchFromRobloxAPI net url ck ttl_arg s)) = sent s @ [axios_get_config url]"
    and "clock (snd (fetchFromRobloxAPI net url ck ttl_arg s)) = snd (net (axios_get_config url) (clock s))"
    and "cache (snd (fetchFromRobloxAPI net url ck ttl_arg s))
           = (case (truthy_key ck, fst (net (axios_get_config url) (clock s))) of
                (Some k, Fulfilled r) \<Rightarrow>
                   (cache s)(k \<mapsto> cache_wrap (resp_data r)
                                     (Some (case ttl_arg of None \<Rightarrow> 300 | Some n \<Rightarrow> n))
                                     (snd (net (axios_get_config url) (clock s))))
              | (Some k, Rejected e) \<Rightarrow> (cache s)(k := None)
              | (None, _) \<Rightarrow> cache s)"
  using assms
  by (auto simp: fetch_cases fetch_upstream_def Let_def cache_hit_iff cache_set_def
           split: option.splits prod.splits settled.splits if_splits)

lemma keyless_fetch:
  "fetchFromRobloxAPI net url None None s =
     (case net (axios_get_config url) (clock s) of
        (Fulfilled r, t') \<Rightarrow>
          (Inr (resp_data r), s\<lparr>sent := sent s @ [axios_get_config url], clock := t'\<rparr>)
      | (Rejected err, t') \<Rightarrow>
          (Inl (catch_block err), s\<lparr>sent := sent s @ [axios_get_config url], clock := t'\<rparr>))"
  by (simp add: fetch_cases truthy_key_def fetch_upstream_def Let_def split: prod.splits settled.splits)

lemma keyless_fetch_fst:
  "clock s' = clock s \<Longrightarrow>
   fst (fetchFromRobloxAPI net url None None s') = fst (fetchFromRobloxAPI net url None None s)"
  by (simp add: keyless_fetch split: prod.splits settled.splits)

text \<open>
  No entry is ever stored under the empty key, nor under a name the table object inherits:
  the table starts empty, the gateway writes under a truthy key after a lookup that found
  nothing, and lookups and sweeps only delete.
\<close>

lemma fetch_upstream_empty_key:
  "cache s [] = None \<Longrightarrow> cache (snd (fetch_upstream net url ck ttl s)) [] = None"
  by (auto simp: fetch_upstream_def Let_def cache_set_def truthy_key_Some
           split: prod.splits settled.splits option.splits)

lemma fetch_empty_key:
  "cache s [] = None \<Longrightarrow> cache (snd (fetchFromRobloxAPI net url ck ttl_arg s)) [] = None"
  by (auto simp: fetch_cases truthy_key_Some fetch_upstream_empty_key split: option.splits)

lemma reachable_empty_key: "reachable s \<Longrightarrow> cache s [] = None"
proof (induction rule: reachable.induct)
  case (start t0)
  show ?case by (simp add: server_init_def)
next
  case (call s net url cacheKey ttl_arg)
  then show ?case by (simp add: fetch_empty_key)
next
  case (tick s t)
  then show ?case by simp
next
  case (sweep s)
  then show ?case by (simp add: cache_checkData_def)
qed

lemma fetch_inherited_key:
  "cache s k = None \<Longrightarrow> inherited k \<Longrightarrow> cache (snd (fetchFromRobloxAPI net url ck ttl_arg s)) k = None"
  by (auto simp: fetch_cases fetch_upstream_def Let_def cache_set_def truthy_key_Some
           split: option.splits prod.splits settled.splits)

lemma reachable_own_names: "reachable s \<Longrightarrow> inherited k \<Longrightarrow> cache s k = None"
proof (induction rule: reachable.induct)
  case (start t0)
  show ?case by (simp add: server_init_def)
next
  case (call s net url cacheKey ttl_arg)
  then show ?case by (simp add: fetch_inherited_key)
next
  case (tick s t)
  then show ?case by simp
next
  case (sweep s)
  then show ?case by (simp add: cache_checkData_def)
qed

lemma not_inherited_player_1: "\<not> inherited ''player_1''"
  by (simp add: inherited_def object_prototype_names_def)

lemma not_inherited_player: "\<not> inherited (''player_'' @ userId)"
  by (simp add: inherited_def object_prototype_names_def)

lemma sample_env_simps:
  "toISOString sample_env = show_int"
  "Math_random sample_env i =
     (if i = 0 then 553942754166571 / 4503599627370496
      else if i = 1 then 3602879701896397 / 4503599627370496
      else if i = 2 then 4278419646001972 / 4503599627370496
      else 1 / 2)"
  "engine_gt0 sample_env x = Inr False"
  by (simp_all add: sample_env_def)

lemma half_env_simps:
  "toISOString half_env = show_int"
  "Math_random half_env i = 1 / 2"
  by (simp_all add: half_env_def sample_env_def)

lemma dmul_300: "dmul 300 1000 = 300000"
  by (simp add: dmul_def dbl_numeral)

lemma server_A_simps:
  "cache server_A = [''player_1'' \<mapsto> \<lparr>ent_t = 300000, ent_v = doc_A\<rparr>]"
  "sent server_A = [axios_get_config ''https://upstream/x'']"
  "clock server_A = 0"
  by (simp_all add: server_A_def fetch_cases truthy_key_def server_init_def fetch_upstream_def
                 net_ok_def net_const_def ok_response_def cache_set_def cache_wrap_def
                 not_inherited_player_1 dmul_300 dadd_def dbl_numeral)

lemma server_stamp_zero_simps:
  "cache server_stamp_zero ''player_1'' = Some \<lparr>ent_t = 0, ent_v = doc_A\<rparr>"
  "clock server_stamp_zero = 1000"
  by (simp_all add: server_stamp_zero_def fetch_cases truthy_key_def server_init_def fetch_upstream_def
                 net_ok_def net_const_def ok_response_def cache_set_def cache_wrap_def
                 not_inherited_player_1 dmul_def dadd_def dbl_neg_numeral dbl_zero)

lemma server_zero_ttl_simps:
  "cache server_zero_ttl ''player_1'' = Some \<lparr>ent_t = 0, ent_v = doc_A\<rparr>"
  "clock server_zero_ttl = 0"
  by (simp_all add: server_zero_ttl_def fetch_cases truthy_key_def server_init_def fetch_upstream_def
                 net_ok_def net_const_def ok_response_def cache_set_def cache_wrap_def
                 not_inherited_player_1)



text \<open>What a call for a key depends on, and what it leaves alone.\<close>

lemma fetch_result_depends:
  assumes "cache s1 k = cache s2 k" and "clock s1 = clock s2"
  shows "fst (fetchFromRobloxAPI net url (Some k) ttl_arg s1)
           = fst (fetchFromRobloxAPI net url (Some k) ttl_arg s2)"
proof (cases "k = []")
  case True
  then show ?thesis
    using assms
    by (simp add: fetch_cases truthy_key_def fetch_upstream_def Let_def split: prod.splits settled.splits)
next
  case False
  then have tk: "truthy_key (Some k) = Some k"
    by (simp add: truthy_key_def)
  show ?thesis
    using assms
    by (simp add: fetch_cases tk fetch_upstream_def Let_def split: option.splits prod.splits settled.splits)
qed

lemma fetch_other_key:
  assumes "a \<noteq> b"
  shows "cache (snd (fetchFromRobloxAPI net url (Some a) ttl_arg s)) b = cache s b"
  using assms
  by (auto simp: fetch_cases fetch_upstream_def Let_def cache_set_def truthy_key_Some
           split: option.splits prod.splits settled.splits)

section \<open>The claims about the gateway\<close>

text \<open>
  C1. In every state the server can reach, a call with a cache key under which the table
  holds an entry whose time has not passed returns that entry's value and leaves the whole
  state as it was: the table is unchanged and no request is added to those sent. The
  target, the network and the time-to-live argument play no part.
\<close>

theorem fetch_cache_hit:
  assumes "reachable s" and "cache s k = Some e" and "\<not> expired e (clock s)"
  shows "fetchFromRobloxAPI net url (Some k) ttl_arg s = (Inr (ent_v e), s)"
proof -
  have "k \<noteq> []"
    using reachable_empty_key[OF assms(1)] assms(2) by auto
  then have tk: "truthy_key (Some k) = Some k"
    by (simp add: truthy_key_def)
  show ?thesis
    using assms(2,3) by (simp add: fetch_cases tk)
qed

text \<open>
  An instance: 100 seconds after \<open>{name: "A"}\<close> was fetched for \<open>"player_1"\<close> with the
  default time-to-live, a call for the same key with another target, on a network that
  refuses every connection, returns \<open>{name: "A"}\<close>.
\<close>

theorem fetch_cache_hit_witness:
  "reachable (server_A\<lparr>clock := 100000\<rparr>)
   \<and> cache (server_A\<lparr>clock := 100000\<rparr>) ''player_1'' = Some \<lparr>ent_t = 300000, ent_v = doc_A\<rparr>
   \<and> \<not> expired \<lparr>ent_t = 300000, ent_v = doc_A\<rparr> (clock (server_A\<lparr>clock := 100000\<rparr>))
   \<and> fetchFromRobloxAPI (net_fail refused_error 1) ''https://elsewhere/y'' (Some ''player_1'') None
        (server_A\<lparr>clock := 100000\<rparr>)
      = (Inr doc_A, server_A\<lparr>clock := 100000\<rparr>)"
proof -
  have r: "reachable (server_A\<lparr>clock := 100000\<rparr>)"
    unfolding server_A_def by (intro reachable.tick reachable.call reachable.start)
  have c: "cache (server_A\<lparr>clock := 100000\<rparr>) ''player_1'' = Some \<lparr>ent_t = 300000, ent_v = doc_A\<rparr>"
    by (simp add: server_A_simps)
  have e: "\<not> expired \<lparr>ent_t = 300000, ent_v = doc_A\<rparr> (clock (server_A\<lparr>clock := 100000\<rparr>))"
    by (simp add: expired_def)
  show ?thesis
    using fetch_cache_hit[OF r c e, of "net_fail refused_error 1" "''https://elsewhere/y''" None] r c e
    by simp
qed




text \<open>
  C6. A call without a cache key leaves the table as it is and sends exactly one request to
  the target, whatever the table holds; its result does not depend on the table; two such
  calls in a row send two requests.
\<close>

theorem fetch_without_key_bypasses:
  "cache (snd (fetchFromRobloxAPI net url None ttl_arg s)) = cache s
   \<and> sent (snd (fetchFromRobloxAPI net url None ttl_arg s)) = sent s @ [axios_get_config url]
   \<and> fst (fetchFromRobloxAPI net url None ttl_arg (s\<lparr>cache := d\<rparr>))
       = fst (fetchFromRobloxAPI net url None ttl_arg s)
   \<and> sent (snd (fetchFromRobloxAPI net2 url2 None ttl_arg2 (snd (fetchFromRobloxAPI net url None ttl_arg s))))
       = sent s @ [axios_get_config url, axios_get_config url2]"
  by (simp add: fetch_cases truthy_key_def fetch_upstream_def Let_def split: prod.splits settled.splits)

text \<open>An instance: the friends count asked twice while \<open>"player_1"\<close> is cached.\<close>

theorem fetch_without_key_bypasses_witness:
  "cache (snd (fetchFromRobloxAPI (net_ok doc_A 0) (friends_url ''1'') None None server_A)) = cache server_A
   \<and> sent (snd (fetchFromRobloxAPI (net_ok doc_B 0) (friends_url ''1'') None None
              (snd (fetchFromRobloxAPI (net_ok doc_A 0) (friends_url ''1'') None None server_A))))
       = sent server_A @ [axios_get_config (friends_url ''1''), axios_get_config (friends_url ''1'')]"
  using fetch_without_key_bypasses[of "net_ok doc_A 0" "friends_url ''1''" None server_A "cache server_A"
          "net_ok doc_B 0" "friends_url ''1''" None]
  by simp

text \<open>
  C3, as the code has it. A call that is not served from the table and whose outbound call
  is rejected never returns a value: it throws a plain \<open>Error\<close> whose message is
  \<open>Roblox API error: <status> - <statusText>\<close> when the upstream answered (with a status
  axios rejects), \<open>Failed to connect to Roblox API\<close> when a request was made and no
  response came, and \<open>Request error: <message>\<close> otherwise. There is no separate error
  for a timeout and none for a body that cannot be decoded.
\<close>

theorem fetch_error_messages:
  assumes "\<not> cache_hit s cacheKey"
    and "net (axios_get_config url) (clock s) = (Rejected err, t')"
  shows "fst (fetchFromRobloxAPI net url cacheKey ttl_arg s) =
           Inl (Error
             (case err_response err of
                Some r \<Rightarrow> ''Roblox API error: '' @ dec (resp_status r) @ '' - '' @ resp_statusText r
              | None \<Rightarrow>
                  if err_request err then ''Failed to connect to Roblox API''
                  else ''Request error: '' @ err_message err))"
  using fetch_miss(1)[OF assms(1), of net url ttl_arg] assms(2)
  by (simp add: catch_block_def split: option.splits)

text \<open>An instance: the upstream answers 503.\<close>

theorem fetch_error_messages_witness:
  "\<not> cache_hit (server_init 0) (Some ''player_1'')
   \<and> net_fail (status_error 503 ''Service Unavailable'' JNull) 20 (axios_get_config ''https://upstream/x'')
        (clock (server_init 0))
       = (Rejected (status_error 503 ''Service Unavailable'' JNull), 20)
   \<and> fst (fetchFromRobloxAPI (net_fail (status_error 503 ''Service Unavailable'' JNull) 20)
            ''https://upstream/x'' (Some ''player_1'') None (server_init 0))
       = Inl (Error ''Roblox API error: 503 - Service Unavailable'')"
proof -
  have m: "\<not> cache_hit (server_init 0) (Some ''player_1'')"
    by (simp add: cache_hit_iff truthy_key_def server_init_def not_inherited_player_1)
  have h: "net_fail (status_error 503 ''Service Unavailable'' JNull) 20 (axios_get_config ''https://upstream/x'')
        (clock (server_init 0))
       = (Rejected (status_error 503 ''Service Unavailable'' JNull), 20)"
    by (simp add: net_fail_def net_const_def server_init_def)
  have d: "dec 503 = ''503''"
    by (simp add: dec.simps)
  show ?thesis
    using fetch_error_messages[where net="net_fail (status_error 503 ''Service Unavailable'' JNull) 20"
            and url="''https://upstream/x''" and s="server_init 0"
            and err="status_error 503 ''Service Unavailable'' JNull" and t'=20
            and cacheKey="Some ''player_1''" and ttl_arg=None] m h
    by (simp add: status_error_def d)
qed

text \<open>
  The claim as stated fails: a timeout and a refused connection are thrown as the very same
  error, so the error does not tell the two categories apart.
\<close>

theorem fetch_error_kinds_counterexample:
  "fst (fetchFromRobloxAPI (net_fail timeout_error 10000) ''https://upstream/x'' (Some ''player_1'') None
          (server_init 0))
     = Inl (Error ''Failed to connect to Roblox API'')
   \<and> fst (fetchFromRobloxAPI (net_fail refused_error 3) ''https://upstream/x'' (Some ''player_1'') None
          (server_init 0))
     = Inl (Error ''Failed to connect to Roblox API'')"
  by (simp add: fetch_cases truthy_key_def server_init_def fetch_upstream_def net_fail_def net_const_def
                catch_block_def timeout_error_def refused_error_def not_inherited_player_1)

text \<open>
  C4, as the code has it. Let a call for key \<open>k\<close> that is not served from the table go
  upstream and succeed, the response arriving at time \<open>t0\<close>, with a time-to-live \<open>t\<close>
  (300 when omitted). The entry is stamped \<open>t0 + 1000 t\<close> as the engine computes it,
  which is that very number of milliseconds when \<open>t\<close> is a whole number and the numbers
  stay below \<open>2 ^ 53\<close>. If \<open>t\<close> and the stamp are other than 0, a call for \<open>k\<close> at any
  time after the stamp sends a request to its own target and returns what the upstream
  answers then. Up to the stamp, that time included, a call for \<open>k\<close> returns the stored
  value and leaves the state, the requests sent included, as it was; and if \<open>t\<close> is 0
  the entry never expires: this is so at every time. More generally, in any state a call whose key holds an entry whose time has passed goes
  upstream, whether or not the entry is still stored.
\<close>

theorem expired_entry_refetched:
  assumes "\<not> cache_hit s (Some k)"
    and "net1 (axios_get_config url1) (clock s) = (Fulfilled r1, t0)"
  shows "((case ttl_arg of None \<Rightarrow> 300 | Some n \<Rightarrow> n) \<noteq> 0
          \<and> dadd (real_of_int t0) (dmul (case ttl_arg of None \<Rightarrow> 300 | Some n \<Rightarrow> n) 1000) \<noteq> 0
          \<and> dadd (real_of_int t0) (dmul (case ttl_arg of None \<Rightarrow> 300 | Some n \<Rightarrow> n) 1000) < real_of_int now
          \<longrightarrow> sent (snd (fetchFromRobloxAPI net2 url2 (Some k) ttl_arg2
                            ((snd (fetchFromRobloxAPI net1 url1 (Some k) ttl_arg s))\<lparr>clock := now\<rparr>)))
                 = sent (snd (fetchFromRobloxAPI net1 url1 (Some k) ttl_arg s)) @ [axios_get_config url2]
             \<and> fst (fetchFromRobloxAPI net2 url2 (Some k) ttl_arg2
                       ((snd (fetchFromRobloxAPI net1 url1 (Some k) ttl_arg s))\<lparr>clock := now\<rparr>))
                 = (case fst (net2 (axios_get_config url2) now) of
                      Fulfilled r \<Rightarrow> Inr (resp_data r) | Rejected e \<Rightarrow> Inl (catch_block e)))
       \<and> (k \<noteq> []
            \<and> (ttl_arg = Some 0
                 \<or> real_of_int later
                     \<le> dadd (real_of_int t0) (dmul (case ttl_arg of None \<Rightarrow> 300 | Some n \<Rightarrow> n) 1000))
          \<longrightarrow> fetchFromRobloxAPI net2 url2 (Some k) ttl_arg2
                 ((snd (fetchFromRobloxAPI net1 url1 (Some k) ttl_arg s))\<lparr>clock := later\<rparr>)
               = (Inr (resp_data r1), (snd (fetchFromRobloxAPI net1 url1 (Some k) ttl_arg s))\<lparr>clock := later\<rparr>))
       \<and> (ttl_arg = Some (real_of_int n) \<and> n \<noteq> 0 \<and> k \<noteq> []
            \<and> \<bar>n * 1000\<bar> < 2 ^ 53 \<and> \<bar>t0 + n * 1000\<bar> < 2 ^ 53
          \<longrightarrow> cache (snd (fetchFromRobloxAPI net1 url1 (Some k) ttl_arg s)) k
                 = Some \<lparr>ent_t = real_of_int (t0 + n * 1000), ent_v = resp_data r1\<rparr>)
       \<and> (cache s' k' = Some e' \<and> expired e' (clock s') \<longrightarrow>
            sent (snd (fetchFromRobloxAPI net3 url3 (Some k') ttl_arg3 s')) = sent s' @ [axios_get_config url3]
          \<and> fst (fetchFromRobloxAPI net3 url3 (Some k') ttl_arg3 s')
              = (case fst (net3 (axios_get_config url3) (clock s')) of
                   Fulfilled r \<Rightarrow> Inr (resp_data r) | Rejected e \<Rightarrow> Inl (catch_block e)))"
proof -
  define s1 where "s1 = snd (fetchFromRobloxAPI net1 url1 (Some k) ttl_arg s)"
  define ttl where "ttl = (case ttl_arg of None \<Rightarrow> 300 | Some n \<Rightarrow> n)"
  have c1: "cache s1 =
              (case truthy_key (Some k) of
                 Some k' \<Rightarrow> (cache s)(k' \<mapsto> cache_wrap (resp_data r1) (Some ttl) t0)
               | None \<Rightarrow> cache s)"
    unfolding s1_def ttl_def using fetch_miss(4)[OF assms(1), of net1 url1 ttl_arg] assms(2)
    by (simp split: option.splits)
  have seq: "sent (snd (fetchFromRobloxAPI net2 url2 (Some k) ttl_arg2 (s1\<lparr>clock := now\<rparr>)))
               = sent s1 @ [axios_get_config url2]
           \<and> fst (fetchFromRobloxAPI net2 url2 (Some k) ttl_arg2 (s1\<lparr>clock := now\<rparr>))
               = (case fst (net2 (axios_get_config url2) now) of
                    Fulfilled r \<Rightarrow> Inr (resp_data r) | Rejected e \<Rightarrow> Inl (catch_block e))"
    if "ttl \<noteq> 0" and "dadd (real_of_int t0) (dmul ttl 1000) \<noteq> 0"
      and "dadd (real_of_int t0) (dmul ttl 1000) < real_of_int now"
  proof -
    have m1: "\<not> cache_hit (s1\<lparr>clock := now\<rparr>) (Some k)"
      using that by (auto simp: c1 cache_hit_iff truthy_key_def cache_wrap_def expired_def)
    show ?thesis
      using fetch_miss(1,2)[OF m1, of net2 url2 ttl_arg2] by simp
  qed
  have keep: "fetchFromRobloxAPI net2 url2 (Some k) ttl_arg2 (s1\<lparr>clock := later\<rparr>)
                = (Inr (resp_data r1), s1\<lparr>clock := later\<rparr>)"
    if "k \<noteq> []" and "ttl_arg = Some 0 \<or> real_of_int later \<le> dadd (real_of_int t0) (dmul ttl 1000)"
  proof -
    have "cache s1 k = Some (cache_wrap (resp_data r1) (Some ttl) t0)"
      using that(1) by (simp add: c1 truthy_key_def)
    moreover have "\<not> expired (cache_wrap (resp_data r1) (Some ttl) t0) later"
      using that(2) by (auto simp: cache_wrap_def expired_def ttl_def)
    moreover have "ent_v (cache_wrap (resp_data r1) (Some ttl) t0) = resp_data r1"
      by (simp add: cache_wrap_def)
    ultimately show ?thesis
      using that(1) by (simp add: fetch_cases truthy_key_def)
  qed
  have stamp: "cache s1 k = Some \<lparr>ent_t = real_of_int (t0 + n * 1000), ent_v = resp_data r1\<rparr>"
    if "ttl_arg = Some (real_of_int n)" and "n \<noteq> 0" and "k \<noteq> []"
      and "\<bar>n * 1000\<bar> < 2 ^ 53" and "\<bar>t0 + n * 1000\<bar> < 2 ^ 53"
    using that stamp_exact[of n t0]
    by (simp add: c1 truthy_key_def cache_wrap_def ttl_def)
  have gen: "sent (snd (fetchFromRobloxAPI net3 url3 (Some k') ttl_arg3 s')) = sent s' @ [axios_get_config url3]
           \<and> fst (fetchFromRobloxAPI net3 url3 (Some k') ttl_arg3 s')
               = (case fst (net3 (axios_get_config url3) (clock s')) of
                    Fulfilled r \<Rightarrow> Inr (resp_data r) | Rejected e \<Rightarrow> Inl (catch_block e))"
    if "cache s' k' = Some e'" and "expired e' (clock s')"
  proof -
    have m: "\<not> cache_hit s' (Some k')"
      using that by (simp add: cache_hit_iff truthy_key_def)
    show ?thesis
      using fetch_miss(1,2)[OF m] by simp
  qed
  show ?thesis
    using seq keep stamp gen unfolding s1_def ttl_def by blast
qed

text \<open>
  Instances. The scenario of the specification: \<open>{name: "A"}\<close> is fetched at time 0
  with 300 s to live and stamped 300000, the upstream then answers \<open>{name: "B"}\<close>, and
  the call at 301 s goes upstream again and returns \<open>{name: "B"}\<close>, while the call at
  300 s sharp still returns \<open>{name: "A"}\<close>. And the same fetch with a time-to-live of
  0: a thousand million seconds later the call still returns \<open>{name: "A"}\<close> and no
  request is sent.
\<close>

theorem expired_entry_refetched_witness:
  "\<not> cache_hit (server_init 0) (Some ''player_1'')
   \<and> net_ok doc_A 0 (axios_get_config ''https://upstream/x'') (clock (server_init 0))
       = (Fulfilled (ok_response doc_A), 0)
   \<and> dadd (real_of_int 0) (dmul 300 1000) < real_of_int 301000
   \<and> server_A = snd (fetchFromRobloxAPI (net_ok doc_A 0) ''https://upstream/x'' (Some ''player_1'') (Some 300)
                      (server_init 0))
   \<and> cache server_A ''player_1'' = Some \<lparr>ent_t = 300000, ent_v = doc_A\<rparr>
   \<and> sent (snd (fetchFromRobloxAPI (net_ok doc_B 0) ''https://upstream/x'' (Some ''player_1'') (Some 300)
               (server_A\<lparr>clock := 301000\<rparr>)))
       = [axios_get_config ''https://upstream/x'', axios_get_config ''https://upstream/x'']
   \<and> fst (fetchFromRobloxAPI (net_ok doc_B 0) ''https://upstream/x'' (Some ''player_1'') (Some 300)
               (server_A\<lparr>clock := 301000\<rparr>))
       = Inr doc_B
   \<and> fetchFromRobloxAPI (net_ok doc_B 0) ''https://upstream/x'' (Some ''player_1'') (Some 300)
        (server_A\<lparr>clock := 300000\<rparr>)
       = (Inr doc_A, server_A\<lparr>clock := 300000\<rparr>)
   \<and> server_zero_ttl = snd (fetchFromRobloxAPI (net_ok doc_A 0) ''https://upstream/x'' (Some ''player_1'')
                              (Some 0) (server_init 0))
   \<and> fetchFromRobloxAPI (net_ok doc_B 0) ''https://upstream/x'' (Some ''player_1'') (Some 0)
        (server_zero_ttl\<lparr>clock := 1000000000000\<rparr>)
       = (Inr doc_A, server_zero_ttl\<lparr>clock := 1000000000000\<rparr>)
   \<and> sent (server_zero_ttl\<lparr>clock := 1000000000000\<rparr>) = [axios_get_config ''https://upstream/x'']"
proof -
  have m: "\<not> cache_hit (server_init 0) (Some ''player_1'')"
    by (simp add: cache_hit_iff truthy_key_def server_init_def not_inherited_player_1)
  have h: "net_ok doc_A 0 (axios_get_config ''https://upstream/x'') (clock (server_init 0))
             = (Fulfilled (ok_response doc_A), 0)"
    by (simp add: net_ok_def net_const_def server_init_def)
  have n: "net_ok doc_B 0 (axios_get_config ''https://upstream/x'') 301000
             = (Fulfilled (ok_response doc_B), 301000)"
    by (simp add: net_ok_def net_const_def)
  have st: "dadd 0 (dmul 300 1000) = 300000"
    by (simp add: dmul_300 dadd_def dbl_numeral)
  have z: "sent server_zero_ttl = [axios_get_config ''https://upstream/x'']"
    by (simp add: server_zero_ttl_def fetch_cases truthy_key_def server_init_def fetch_upstream_def
          net_ok_def net_const_def ok_response_def not_inherited_player_1)
  have one: "sent (snd (fetchFromRobloxAPI (net_ok doc_B 0) ''https://upstream/x'' (Some ''player_1'') (Some 300)
               (server_A\<lparr>clock := 301000\<rparr>)))
       = [axios_get_config ''https://upstream/x'', axios_get_config ''https://upstream/x'']
     \<and> fst (fetchFromRobloxAPI (net_ok doc_B 0) ''https://upstream/x'' (Some ''player_1'') (Some 300)
               (server_A\<lparr>clock := 301000\<rparr>))
       = Inr doc_B"
    using expired_entry_refetched[where s="server_init 0" and k="''player_1''" and ?net1.0="net_ok doc_A 0"
            and ?url1.0="''https://upstream/x''" and ?r1.0="ok_response doc_A" and ?t0.0=0
            and ttl_arg="Some 300" and now=301000 and ?net2.0="net_ok doc_B 0"
            and ?url2.0="''https://upstream/x''" and ?ttl_arg2.0="Some 300"] m h n st
    by (simp add: server_A_def[symmetric] server_A_simps ok_response_def)
  have edge: "fetchFromRobloxAPI (net_ok doc_B 0) ''https://upstream/x'' (Some ''player_1'') (Some 300)
        (server_A\<lparr>clock := 300000\<rparr>)
       = (Inr doc_A, server_A\<lparr>clock := 300000\<rparr>)"
    using expired_entry_refetched[where s="server_init 0" and k="''player_1''" and ?net1.0="net_ok doc_A 0"
            and ?url1.0="''https://upstream/x''" and ?r1.0="ok_response doc_A" and ?t0.0=0
            and ttl_arg="Some 300" and later=300000 and ?net2.0="net_ok doc_B 0"
            and ?url2.0="''https://upstream/x''" and ?ttl_arg2.0="Some 300"] m h st
    by (simp add: server_A_def[symmetric] ok_response_def)
  have two: "fetchFromRobloxAPI (net_ok doc_B 0) ''https://upstream/x'' (Some ''player_1'') (Some 0)
        (server_zero_ttl\<lparr>clock := 1000000000000\<rparr>)
       = (Inr doc_A, server_zero_ttl\<lparr>clock := 1000000000000\<rparr>)"
    using expired_entry_refetched[where s="server_init 0" and k="''player_1''" and ?net1.0="net_ok doc_A 0"
            and ?url1.0="''https://upstream/x''" and ?r1.0="ok_response doc_A" and ?t0.0=0
            and ttl_arg="Some 0" and later=1000000000000 and ?net2.0="net_ok doc_B 0"
            and ?url2.0="''https://upstream/x''" and ?ttl_arg2.0="Some 0"] m h
    by (simp add: server_zero_ttl_def[symmetric] ok_response_def)
  show ?thesis
    using m h one edge two z
    by (simp add: st server_A_def[symmetric] server_zero_ttl_def[symmetric] server_A_simps)
qed

text \<open>
  The claim as stated fails for a time-to-live of 0: the entry stored at time 0 is still
  served 1000 ms later, that is after \<open>t0 + t\<close>, and no request is sent (the state is
  unchanged) although the upstream would now answer \<open>{name: "B"}\<close>. The same happens
  when the stamp \<open>t0 + 1000 t\<close> itself comes out as 0 (a response at time 1000 with a
  time-to-live of -1).
\<close>

theorem zero_ttl_counterexample:
  "clock server_zero_ttl = 0
   \<and> fetchFromRobloxAPI (net_ok doc_B 0) ''https://upstream/x'' (Some ''player_1'') (Some 0)
        (server_zero_ttl\<lparr>clock := 1000\<rparr>)
      = (Inr doc_A, server_zero_ttl\<lparr>clock := 1000\<rparr>)
   \<and> clock server_stamp_zero = 1000
   \<and> fetchFromRobloxAPI (net_ok doc_B 0) ''https://upstream/x'' (Some ''player_1'') (Some (- 1))
        (server_stamp_zero\<lparr>clock := 5000\<rparr>)
      = (Inr doc_A, server_stamp_zero\<lparr>clock := 5000\<rparr>)"
  by (simp add: server_zero_ttl_simps server_stamp_zero_simps fetch_cases truthy_key_def expired_def)

text \<open>
  C5, as the code has it. A call with a truthy cache key that is not served from the table
  sends exactly one request: a GET to the target with a timeout of 10000 ms and the header
  \<open>User-Agent: RobloxAPI/1.0\<close>. When the promise fulfils, the call returns the response's
  data and stores it under the key, stamped with the time the response arrived plus the
  time-to-live in milliseconds (300 s when the argument is omitted), the sum and the
  product being those of the engine; a time-to-live of 0 is stored with stamp 0, which
  node-cache reads as no expiry. For a whole number of seconds, and as long as the numbers
  stay below \<open>2 ^ 53\<close>, the stamp is exactly the arrival time plus a thousand times the
  time-to-live.
\<close>

theorem fetch_miss_stores:
  assumes "truthy_key cacheKey = Some k"
    and "\<not> cache_hit s cacheKey"
    and "net (axios_get_config url) (clock s) = (res, t')"
  shows "sent (snd (fetchFromRobloxAPI net url cacheKey ttl_arg s))
           = sent s @ [\<lparr>out_method = ''GET'', out_url = url, out_timeout = 10000,
                         out_headers = [(''User-Agent'', ''RobloxAPI/1.0'')]\<rparr>]
       \<and> (\<forall>r. res = Fulfilled r \<longrightarrow>
             fst (fetchFromRobloxAPI net url cacheKey ttl_arg s) = Inr (resp_data r)
           \<and> cache (snd (fetchFromRobloxAPI net url cacheKey ttl_arg s)) k
               = Some \<lparr>ent_t = (case ttl_arg of
                                   None \<Rightarrow> dadd (real_of_int t') (dmul 300 1000)
                                 | Some ttl \<Rightarrow>
                                     if ttl = 0 then 0 else dadd (real_of_int t') (dmul ttl 1000)),
                        ent_v = resp_data r\<rparr>)
       \<and> (\<bar>t' + 300000\<bar> < 2 ^ 53
            \<longrightarrow> dadd (real_of_int t') (dmul 300 1000) = real_of_int (t' + 300000))
       \<and> (\<bar>n * 1000\<bar> < 2 ^ 53 \<and> \<bar>t' + n * 1000\<bar> < 2 ^ 53
            \<longrightarrow> dadd (real_of_int t') (dmul (real_of_int n) 1000) = real_of_int (t' + n * 1000))"
proof -
  have "sent (snd (fetchFromRobloxAPI net url cacheKey ttl_arg s))
           = sent s @ [\<lparr>out_method = ''GET'', out_url = url, out_timeout = 10000,
                         out_headers = [(''User-Agent'', ''RobloxAPI/1.0'')]\<rparr>]
       \<and> (\<forall>r. res = Fulfilled r \<longrightarrow>
             fst (fetchFromRobloxAPI net url cacheKey ttl_arg s) = Inr (resp_data r)
           \<and> cache (snd (fetchFromRobloxAPI net url cacheKey ttl_arg s)) k
               = Some \<lparr>ent_t = (case ttl_arg of
                                   None \<Rightarrow> dadd (real_of_int t') (dmul 300 1000)
                                 | Some ttl \<Rightarrow>
                                     if ttl = 0 then 0 else dadd (real_of_int t') (dmul ttl 1000)),
                        ent_v = resp_data r\<rparr>)"
    using fetch_miss(1,2,4)[OF assms(2), of net url ttl_arg] assms(1,3)
    by (auto simp: axios_get_config_def cache_wrap_def split: option.splits)
  then show ?thesis
    using stamp_default[of t'] stamp_exact[of n t'] by blast
qed

text \<open>
  An instance: the call is made at time 5, the response arrives at 12, the time-to-live is
  omitted; the entry is stamped 300012.
\<close>

theorem fetch_miss_stores_witness:
  "truthy_key (Some ''player_1'') = Some ''player_1''
   \<and> \<not> cache_hit (server_init 5) (Some ''player_1'')
   \<and> net_ok doc_A 7 (axios_get_config ''https://upstream/x'') (clock (server_init 5))
       = (Fulfilled (ok_response doc_A), 12)
   \<and> sent (snd (fetchFromRobloxAPI (net_ok doc_A 7) ''https://upstream/x'' (Some ''player_1'') None
               (server_init 5)))
       = [\<lparr>out_method = ''GET'', out_url = ''https://upstream/x'', out_timeout = 10000,
            out_headers = [(''User-Agent'', ''RobloxAPI/1.0'')]\<rparr>]
   \<and> fst (fetchFromRobloxAPI (net_ok doc_A 7) ''https://upstream/x'' (Some ''player_1'') None
            (server_init 5)) = Inr doc_A
   \<and> cache (snd (fetchFromRobloxAPI (net_ok doc_A 7) ''https://upstream/x'' (Some ''player_1'') None
                (server_init 5)))
        ''player_1'' = Some \<lparr>ent_t = 300012, ent_v = doc_A\<rparr>"
proof -
  have k: "truthy_key (Some ''player_1'') = Some ''player_1''"
    by (simp add: truthy_key_def)
  have m: "\<not> cache_hit (server_init 5) (Some ''player_1'')"
    by (simp add: cache_hit_iff truthy_key_def server_init_def not_inherited_player_1)
  have h: "net_ok doc_A 7 (axios_get_config ''https://upstream/x'') (clock (server_init 5))
             = (Fulfilled (ok_response doc_A), 12)"
    by (simp add: net_ok_def net_const_def server_init_def)
  show ?thesis
    using fetch_miss_stores[where cacheKey="Some ''player_1''" and k="''player_1''" and s="server_init 5"
            and net="net_ok doc_A 7" and url="''https://upstream/x''"
            and res="Fulfilled (ok_response doc_A)" and t'=12 and ttl_arg=None and n=300] k m h
    by (simp add: ok_response_def server_init_def)
qed

text \<open>
  The claim as stated fails in four places. With a time-to-live of 0 and the response
  arriving at time 12, the entry is stamped 0 and not \<open>12 + 0\<close>. With the empty string as
  cache key, nothing is stored at all. With a time-to-live of \<open>2 ^ 53\<close> seconds and
  the response arriving at time 12, the stamp is 9007199254740992000 and not
  9007199254740992012: the sum is rounded to a double. And with the cache key
  \<open>"constructor"\<close>, under which the table of a fresh server holds no entry, no request
  is sent: the lookup finds what the table object inherits under that name and the call
  returns \<open>null\<close>, leaving the state as it was.
\<close>

theorem fetch_store_counterexample:
  "cache (snd (fetchFromRobloxAPI (net_ok doc_A 7) ''https://upstream/x'' (Some ''player_1'') (Some 0)
                (server_init 5)))
      ''player_1'' = Some \<lparr>ent_t = 0, ent_v = doc_A\<rparr>
   \<and> clock (snd (fetchFromRobloxAPI (net_ok doc_A 7) ''https://upstream/x'' (Some ''player_1'') (Some 0)
                (server_init 5))) = 12
   \<and> cache (snd (fetchFromRobloxAPI (net_ok doc_A 7) ''https://upstream/x'' (Some []) (Some 300)
                (server_init 5))) [] = None
   \<and> cache (snd (fetchFromRobloxAPI (net_ok doc_A 7) ''https://upstream/x'' (Some ''player_1'')
                (Some 9007199254740992) (server_init 5)))
      ''player_1'' = Some \<lparr>ent_t = 9007199254740992000, ent_v = doc_A\<rparr>
   \<and> cache (server_init 5) ''constructor'' = None
   \<and> fetchFromRobloxAPI (net_ok doc_A 7) ''https://upstream/x'' (Some ''constructor'') None (server_init 5)
       = (Inr JNull, server_init 5)
   \<and> sent (server_init 5) = []"
proof -
  have "fetchFromRobloxAPI (net_ok doc_A 7) ''https://upstream/x'' (Some ''constructor'') None (server_init 5)
          = (Inr JNull, server_init 5)"
    by (simp add: fetchFromRobloxAPI_def truthy_key_def cache_has_def cache_get_def server_init_def
          inherited_def object_prototype_names_def)
  then show ?thesis
    by (simp add: fetch_cases truthy_key_def server_init_def fetch_upstream_def
                  net_ok_def net_const_def ok_response_def cache_set_def cache_wrap_def
                  not_inherited_player_1 long_stamp)
qed

text \<open>
  C7. The table is a map, so it holds at most one entry per key, and storing under a key
  replaces what was there and touches no other key. A call for key \<open>a\<close> leaves the entry
  of any other key \<open>b\<close> as it was, and the result of a later call for \<open>b\<close> is the result
  that call would have had if the call for \<open>a\<close> had never been made: nothing stored under
  \<open>a\<close> reaches it. The state \<open>s\<close> is arbitrary, so this holds after any sequence of
  calls.
\<close>

theorem fetch_keys_independent:
  assumes "a \<noteq> b"
  shows "cache (snd (fetchFromRobloxAPI net1 url1 (Some a) ttl1 s)) b = cache s b
       \<and> fst (fetchFromRobloxAPI net2 url2 (Some b) ttl2
                ((snd (fetchFromRobloxAPI net1 url1 (Some a) ttl1 s))\<lparr>clock := t\<rparr>))
           = fst (fetchFromRobloxAPI net2 url2 (Some b) ttl2 (s\<lparr>clock := t\<rparr>))
       \<and> cache_set d a x ttl now a = Some (cache_wrap x ttl now)
       \<and> cache_set d a x ttl now b = d b"
proof -
  have 1: "cache (snd (fetchFromRobloxAPI net1 url1 (Some a) ttl1 s)) b = cache s b"
    using assms by (rule fetch_other_key)
  have 2: "fst (fetchFromRobloxAPI net2 url2 (Some b) ttl2
                ((snd (fetchFromRobloxAPI net1 url1 (Some a) ttl1 s))\<lparr>clock := t\<rparr>))
           = fst (fetchFromRobloxAPI net2 url2 (Some b) ttl2 (s\<lparr>clock := t\<rparr>))"
    by (rule fetch_result_depends) (simp_all add: 1)
  show ?thesis
    using 1 2 assms by (simp add: cache_set_def)
qed

text \<open>
  An instance: \<open>{name: "A"}\<close> is fetched for \<open>"a"\<close>, then \<open>{name: "B"}\<close> for \<open>"b"\<close>; the
  second call returns \<open>{name: "B"}\<close>.
\<close>

theorem fetch_keys_independent_witness:
  "''a'' \<noteq> ''b''
   \<and> fst (fetchFromRobloxAPI (net_ok doc_B 0) ''https://upstream/2'' (Some ''b'') None
           ((snd (fetchFromRobloxAPI (net_ok doc_A 0) ''https://upstream/1'' (Some ''a'') None
                    (server_init 0)))\<lparr>clock := 1\<rparr>))
       = Inr doc_B
   \<and> cache (snd (fetchFromRobloxAPI (net_ok doc_A 0) ''https://upstream/1'' (Some ''a'') None
                (server_init 0))) ''b'' = None"
proof -
  have ab: "''a'' \<noteq> ''b''"
    by simp
  have "fst (fetchFromRobloxAPI (net_ok doc_B 0) ''https://upstream/2'' (Some ''b'') None
               ((server_init 0)\<lparr>clock := 1\<rparr>)) = Inr doc_B"
    by (simp add: fetch_cases truthy_key_def server_init_def fetch_upstream_def net_ok_def
                  net_const_def ok_response_def inherited_def object_prototype_names_def)
  moreover have "cache (server_init 0) ''b'' = None"
    by (simp add: server_init_def)
  ultimately show ?thesis
    using fetch_keys_independent[OF ab, of "net_ok doc_A 0" "''https://upstream/1''" None "server_init 0"
            "net_ok doc_B 0" "''https://upstream/2''" None 1] ab
    by simp
qed

section \<open>The claims about the handlers\<close>

text \<open>Reading the request parameters of the worked instances.\<close>

lemma parseInt_samples:
  "parseInt ''1'' = JNum 1"
  "parseInt ''7'' = JNum 7"
  "parseInt ''42'' = JNum 42"
proof -
  have "parse_integer ''1'' = Some 1" "parse_integer ''7'' = Some 7" "parse_integer ''42'' = Some 42"
    by (simp_all add: parse_integer_def is_space_def digit_val_def)
  then show "parseInt ''1'' = JNum 1" "parseInt ''7'' = JNum 7" "parseInt ''42'' = JNum 42"
    using parseInt_small[of "''1''" 1] parseInt_small[of "''7''" 7] parseInt_small[of "''42''" 42]
    by simp_all
qed

lemma parseInt_above_2_53: "parseInt ''9007199254740993'' = JNum 9007199254740992"
proof -
  have "parse_integer ''9007199254740993'' = Some 9007199254740993"
    by (simp add: parse_integer_def is_space_def digit_val_def)
  moreover have "\<not> (2::real) ^ 1024 \<le> 9007199254740992"
  proof -
    have "(9007199254740992::real) < 2 ^ 54" by simp
    also have "\<dots> \<le> 2 ^ 1024" by (rule power_increasing) simp_all
    finally show ?thesis by simp
  qed
  ultimately show ?thesis
    by (simp add: parseInt_def number_of_int_def dbl_above_2_53 del: power_numeral)
qed

lemma limit_asks_number:
  assumes "limit_asks q n"
  shows "leaderboard_limit q = JNum (real n)"
proof (cases q)
  case None
  then show ?thesis
    using assms by (simp add: limit_asks_def leaderboard_limit_def js_or_def)
next
  case (Some x)
  then have p: "parse_integer x = Some (int n)" and i: "isInt 1 100 x"
    using assms by (simp_all add: limit_asks_def)
  have r: "1 \<le> int n" "int n \<le> 100"
    using i p by (simp_all add: isInt_def)
  have "\<bar>int n\<bar> < 2 ^ 53"
    using r by simp
  then have "parseInt x = JNum (real n)"
    using parseInt_small[OF p] by simp
  then show ?thesis
    using Some r by (simp add: leaderboard_limit_def js_or_def)
qed

text \<open>
  C8. The handlers of \<open>GET /asset/:assetId\<close> and \<open>GET /leaderboard/:gameId\<close> leave the
  state as it is (no request is sent, the table is not written) and answer the same
  whatever the network, the table and the requests sent so far are (the table is not
  read). The answer is the object written out below, built in the handler from the
  parameters, the clock and the random draws of the request: for an asset the price, the
  two flags, the remaining count and the sales come from the first five draws; for a
  leaderboard that asks for \<open>n\<close> entries (50 when no limit is given, otherwise a limit
  that passed the validation) there are \<open>n\<close> entries, the \<open>i\<close>-th with rank \<open>i + 1\<close>
  and with its player id, score and thumbnail from the draws \<open>3 i\<close>, \<open>3 i + 1\<close> and
  \<open>3 i + 2\<close>.
\<close>

theorem mock_handlers_local:
  "snd (asset_handler e net assetId s) = s
   \<and> snd (leaderboard_handler e net gameId q s) = s
   \<and> fst (asset_handler e net' assetId (s\<lparr>cache := d, sent := xs\<rparr>)) = fst (asset_handler e net assetId s)
   \<and> fst (leaderboard_handler e net' gameId q (s\<lparr>cache := d, sent := xs\<rparr>))
       = fst (leaderboard_handler e net gameId q s)
   \<and> fst (asset_handler e net assetId s)
       = \<lparr>res_status = 200,
          res_body =
            JObj [(''success'', JBool True),
                  (''message'', JStr ''Success''),
                  (''data'',
                   JObj [(''assetId'', parseInt assetId),
                         (''name'', JStr (''Asset '' @ assetId)),
                         (''description'', JStr ''A Roblox asset''),
                         (''assetType'', JObj [(''id'', JNum 1), (''name'', JStr ''T-Shirt'')]),
                         (''creator'',
                          JObj [(''id'', JNum 1), (''name'', JStr ''Creator''), (''type'', JStr ''User'')]),
                         (''price'', JNum (real_of_int \<lfloor>dmul (Math_random e 0) 1000\<rfloor>)),
                         (''isLimited'', JBool (dbl 0.8 < Math_random e 1)),
                         (''isLimitedUnique'', JBool (dbl 0.95 < Math_random e 2)),
                         (''remaining'', JNum (real_of_int \<lfloor>dmul (Math_random e 3) 100\<rfloor>)),
                         (''sales'', JNum (real_of_int \<lfloor>dmul (Math_random e 4) 10000\<rfloor>)),
                         (''created'', JStr ''2021-01-01T00:00:00.000Z''),
                         (''updated'', JStr (toISOString e (clock s)))]),
                  (''timestamp'', JStr (toISOString e (clock s)))]\<rparr>
   \<and> (limit_asks q n \<longrightarrow>
        fst (leaderboard_handler e net gameId q s)
          = \<lparr>res_status = 200,
             res_body =
               JObj [(''success'', JBool True),
                     (''message'', JStr ''Success''),
                     (''data'',
                      JObj [(''gameId'', parseInt gameId),
                            (''leaderboard'',
                             JArr (map (\<lambda>i.
                                     JObj [(''rank'', JNum (real (i + 1))),
                                           (''player'',
                                            JObj [(''id'', JNum (real_of_int \<lfloor>dmul (Math_random e (3 * i)) 1000000\<rfloor>)),
                                                  (''username'', JStr (''Player'' @ dec (i + 1))),
                                                  (''displayName'', JStr (''Top Player '' @ dec (i + 1)))]),
                                           (''score'',
                                            JNum (dadd (real_of_int \<lfloor>dmul (Math_random e (3 * i + 1)) 1000000\<rfloor>)
                                                       (dmul (real n - real i) 1000))),
                                           (''avatarThumbnail'',
                                            JStr (''https://www.roblox.com/headshot-thumbnail/image?userId=''
                                                  @ show_int \<lfloor>dmul (Math_random e (3 * i + 2)) 1000000\<rfloor>
                                                  @ ''&width=150&height=150''))])
                                   [0 ..< n])),
                            (''totalEntries'', JNum (real n)),
                            (''lastUpdated'', JStr (toISOString e (clock s)))]),
                     (''timestamp'', JStr (toISOString e (clock s)))]\<rparr>)"
proof -
  have a: "snd (asset_handler e net assetId s) = s"
    by (simp add: asset_handler_def)
  have b: "snd (leaderboard_handler e net gameId q s) = s"
    by (simp add: leaderboard_handler_def)
  have c: "fst (asset_handler e net' assetId (s\<lparr>cache := d, sent := xs\<rparr>)) = fst (asset_handler e net assetId s)"
    by (simp add: asset_handler_def)
  have f: "fst (leaderboard_handler e net' gameId q (s\<lparr>cache := d, sent := xs\<rparr>))
             = fst (leaderboard_handler e net gameId q s)"
    by (simp add: leaderboard_handler_def)
  have g: "fst (asset_handler e net assetId s)
       = \<lparr>res_status = 200,
          res_body =
            JObj [(''success'', JBool True),
                  (''message'', JStr ''Success''),
                  (''data'',
                   JObj [(''assetId'', parseInt assetId),
                         (''name'', JStr (''Asset '' @ assetId)),
                         (''description'', JStr ''A Roblox asset''),
                         (''assetType'', JObj [(''id'', JNum 1), (''name'', JStr ''T-Shirt'')]),
                         (''creator'',
                          JObj [(''id'', JNum 1), (''name'', JStr ''Creator''), (''type'', JStr ''User'')]),
                         (''price'', JNum (real_of_int \<lfloor>dmul (Math_random e 0) 1000\<rfloor>)),
                         (''isLimited'', JBool (dbl 0.8 < Math_random e 1)),
                         (''isLimitedUnique'', JBool (dbl 0.95 < Math_random e 2)),
                         (''remaining'', JNum (real_of_int \<lfloor>dmul (Math_random e 3) 100\<rfloor>)),
                         (''sales'', JNum (real_of_int \<lfloor>dmul (Math_random e 4) 10000\<rfloor>)),
                         (''created'', JStr ''2021-01-01T00:00:00.000Z''),
                         (''updated'', JStr (toISOString e (clock s)))]),
                  (''timestamp'', JStr (toISOString e (clock s)))]\<rparr>"
    by (simp add: asset_handler_def sendResponse_def asset_data_def random_below_def random_above_def)
  have h: "fst (leaderboard_handler e net gameId q s)
          = \<lparr>res_status = 200,
             res_body =
               JObj [(''success'', JBool True),
                     (''message'', JStr ''Success''),
                     (''data'',
                      JObj [(''gameId'', parseInt gameId),
                            (''leaderboard'',
                             JArr (map (\<lambda>i.
                                     JObj [(''rank'', JNum (real (i + 1))),
                                           (''player'',
                                            JObj [(''id'', JNum (real_of_int \<lfloor>dmul (Math_random e (3 * i)) 1000000\<rfloor>)),
                                                  (''username'', JStr (''Player'' @ dec (i + 1))),
                                                  (''displayName'', JStr (''Top Player '' @ dec (i + 1)))]),
                                           (''score'',
                                            JNum (dadd (real_of_int \<lfloor>dmul (Math_random e (3 * i + 1)) 1000000\<rfloor>)
                                                       (dmul (real n - real i) 1000))),
                                           (''avatarThumbnail'',
                                            JStr (''https://www.roblox.com/headshot-thumbnail/image?userId=''
                                                  @ show_int \<lfloor>dmul (Math_random e (3 * i + 2)) 1000000\<rfloor>
                                                  @ ''&width=150&height=150''))])
                                   [0 ..< n])),
                            (''totalEntries'', JNum (real n)),
                            (''lastUpdated'', JStr (toISOString e (clock s)))]),
                     (''timestamp'', JStr (toISOString e (clock s)))]\<rparr>"
    if "limit_asks q n"
    using limit_asks_number[OF that]
    by (simp add: leaderboard_handler_def sendResponse_def leaderboard_data_def leaderboard_entry_def
          random_below_def array_length_def number_value_def Let_def)
  show ?thesis
    using a b c f g h by blast
qed

text \<open>
  Instances, while \<open>"player_1"\<close> is cached and the network refuses every connection.
  Asset 42 with a first draw of \<open>553942754166571 / 2 ^ 52\<close>: the price is 123, the
  product rounding up to 123 before the floor is taken. The same asset with a first draw
  of 0.5: the price is 500. A leaderboard of two for game 7 with every draw 0.5.
\<close>

theorem mock_handlers_local_witness:
  "isNumeric ''42'' \<and> isNumeric ''7'' \<and> isNumeric ''9007199254740993'' \<and> \<not> isNumeric ''4x2''
   \<and> limit_asks (Some ''2'') 2 \<and> limit_asks None 50 \<and> \<not> limit_asks (Some ''101'') 101
   \<and> field (field (res_body (fst (asset_handler sample_env (net_fail refused_error 1) ''9007199254740993''
                                     server_A))) ''data'') ''assetId''
       = JNum 9007199254740992
   \<and> field (field (res_body (fst (leaderboard_handler half_env (net_fail refused_error 1) ''7'' None
                                     server_A))) ''data'') ''totalEntries''
       = JNum 50
   \<and> asset_handler sample_env (net_fail refused_error 1) ''42'' server_A
       = (\<lparr>res_status = 200,
           res_body =
             JObj [(''success'', JBool True),
                   (''message'', JStr ''Success''),
                   (''data'',
                    JObj [(''assetId'', JNum 42),
                          (''name'', JStr ''Asset 42''),
                          (''description'', JStr ''A Roblox asset''),
                          (''assetType'', JObj [(''id'', JNum 1), (''name'', JStr ''T-Shirt'')]),
                          (''creator'',
                           JObj [(''id'', JNum 1), (''name'', JStr ''Creator''), (''type'', JStr ''User'')]),
                          (''price'', JNum 123),
                          (''isLimited'', JBool False),
                          (''isLimitedUnique'', JBool True),
                          (''remaining'', JNum 50),
                          (''sales'', JNum 5000),
                          (''created'', JStr ''2021-01-01T00:00:00.000Z''),
                          (''updated'', JStr ''0'')]),
                   (''timestamp'', JStr ''0'')]\<rparr>, server_A)
   \<and> field (field (res_body (fst (asset_handler half_env (net_fail refused_error 1) ''42'' server_A))) ''data'')
        ''price'' = JNum 500
   \<and> leaderboard_handler half_env (net_fail refused_error 1) ''7'' (Some ''2'') server_A
       = (\<lparr>res_status = 200,
           res_body =
             JObj [(''success'', JBool True),
                   (''message'', JStr ''Success''),
                   (''data'',
                    JObj [(''gameId'', JNum 7),
                          (''leaderboard'',
                           JArr [JObj [(''rank'', JNum 1),
                                       (''player'',
                                        JObj [(''id'', JNum 500000), (''username'', JStr ''Player1''),
                                              (''displayName'', JStr ''Top Player 1'')]),
                                       (''score'', JNum 502000),
                                       (''avatarThumbnail'',
                                        JStr ''https://www.roblox.com/headshot-thumbnail/image?userId=500000&width=150&height=150'')],
                                 JObj [(''rank'', JNum 2),
                                       (''player'',
                                        JObj [(''id'', JNum 500000), (''username'', JStr ''Player2''),
                                              (''displayName'', JStr ''Top Player 2'')]),
                                       (''score'', JNum 501000),
                                       (''avatarThumbnail'',
                                        JStr ''https://www.roblox.com/headshot-thumbnail/image?userId=500000&width=150&height=150'')]]),
                          (''totalEntries'', JNum 2),
                          (''lastUpdated'', JStr ''0'')]),
                   (''timestamp'', JStr ''0'')]\<rparr>, server_A)"
proof -
  have v: "isNumeric ''42''" "isNumeric ''7''" "isNumeric ''9007199254740993''" "\<not> isNumeric ''4x2''"
    by (simp_all add: isNumeric_def strip_sign_def is_digit_def all_digits_def)
  have l: "limit_asks (Some ''2'') 2"
    by (simp add: limit_asks_def isInt_def all_digits_def strip_sign_def is_digit_def parse_integer_def
          is_space_def digit_val_def)
  have l': "limit_asks None 50" "\<not> limit_asks (Some ''101'') 101"
    by (simp_all add: limit_asks_def isInt_def all_digits_def strip_sign_def is_digit_def parse_integer_def
          is_space_def digit_val_def)
  have big: "field (field (res_body (fst (asset_handler sample_env (net_fail refused_error 1) ''9007199254740993''
                                     server_A))) ''data'') ''assetId''
       = JNum 9007199254740992"
    using mock_handlers_local[where e=sample_env and net="net_fail refused_error 1"
            and assetId="''9007199254740993''" and s=server_A]
    by (simp add: field_def parseInt_above_2_53)
  have dflt: "field (field (res_body (fst (leaderboard_handler half_env (net_fail refused_error 1) ''7'' None
                                     server_A))) ''data'') ''totalEntries''
       = JNum 50"
    using mock_handlers_local[where e=half_env and net="net_fail refused_error 1" and gameId="''7''"
            and q=None and s=server_A and n=50] l'(1)
    by (simp add: field_def)
  have u: "upt 0 2 = [0, Suc 0]"
    by (simp add: upt_rec)
  have decs: "dec 0 = ''0''" "dec (Suc 0) = ''1''" "dec (Suc (Suc 0)) = ''2''" "dec 500000 = ''500000''"
    by (simp_all add: dec.simps)
  have sa: "snd (asset_handler sample_env (net_fail refused_error 1) ''42'' server_A) = server_A"
    and sl: "snd (leaderboard_handler half_env (net_fail refused_error 1) ''7'' (Some ''2'') server_A) = server_A"
    using mock_handlers_local[where e=sample_env and net="net_fail refused_error 1" and assetId="''42''"
            and s=server_A]
          mock_handlers_local[where e=half_env and net="net_fail refused_error 1" and gameId="''7''"
            and q="Some ''2''" and s=server_A]
    by simp_all
  have fa: "fst (asset_handler sample_env (net_fail refused_error 1) ''42'' server_A)
       = \<lparr>res_status = 200,
           res_body =
             JObj [(''success'', JBool True),
                   (''message'', JStr ''Success''),
                   (''data'',
                    JObj [(''assetId'', JNum 42),
                          (''name'', JStr ''Asset 42''),
                          (''description'', JStr ''A Roblox asset''),
                          (''assetType'', JObj [(''id'', JNum 1), (''name'', JStr ''T-Shirt'')]),
                          (''creator'',
                           JObj [(''id'', JNum 1), (''name'', JStr ''Creator''), (''type'', JStr ''User'')]),
                          (''price'', JNum 123),
                          (''isLimited'', JBool False),
                          (''isLimitedUnique'', JBool True),
                          (''remaining'', JNum 50),
                          (''sales'', JNum 5000),
                          (''created'', JStr ''2021-01-01T00:00:00.000Z''),
                          (''updated'', JStr ''0'')]),
                   (''timestamp'', JStr ''0'')]\<rparr>"
    using mock_handlers_local[where e=sample_env and net="net_fail refused_error 1" and assetId="''42''"
            and s=server_A]
    by (simp add: sample_env_simps server_A_simps parseInt_samples dbl_draw_reduced dbl_literal_08_reduced
          dbl_literal_095_reduced dmul_def dbl_numeral show_int_def decs)
  have fh: "field (field (res_body (fst (asset_handler half_env (net_fail refused_error 1) ''42'' server_A))) ''data'')
        ''price'' = JNum 500"
    using mock_handlers_local[where e=half_env and net="net_fail refused_error 1" and assetId="''42''"
            and s=server_A]
    by (simp add: half_env_simps field_def dmul_def dbl_numeral)
  have fl: "fst (leaderboard_handler half_env (net_fail refused_error 1) ''7'' (Some ''2'') server_A)
       = \<lparr>res_status = 200,
           res_body =
             JObj [(''success'', JBool True),
                   (''message'', JStr ''Success''),
                   (''data'',
                    JObj [(''gameId'', JNum 7),
                          (''leaderboard'',
                           JArr [JObj [(''rank'', JNum 1),
                                       (''player'',
                                        JObj [(''id'', JNum 500000), (''username'', JStr ''Player1''),
                                              (''displayName'', JStr ''Top Player 1'')]),
                                       (''score'', JNum 502000),
                                       (''avatarThumbnail'',
                                        JStr ''https://www.roblox.com/headshot-thumbnail/image?userId=500000&width=150&height=150'')],
                                 JObj [(''rank'', JNum 2),
                                       (''player'',
                                        JObj [(''id'', JNum 500000), (''username'', JStr ''Player2''),
                                              (''displayName'', JStr ''Top Player 2'')]),
                                       (''score'', JNum 501000),
                                       (''avatarThumbnail'',
                                        JStr ''https://www.roblox.com/headshot-thumbnail/image?userId=500000&width=150&height=150'')]]),
                          (''totalEntries'', JNum 2),
                          (''lastUpdated'', JStr ''0'')]),
                   (''timestamp'', JStr ''0'')]\<rparr>"
    using mock_handlers_local[where e=half_env and net="net_fail refused_error 1" and gameId="''7''"
            and q="Some ''2''" and s=server_A and n=2] l
    by (simp add: half_env_simps server_A_simps parseInt_samples u
          dmul_def dadd_def dbl_numeral show_int_def decs)
  show ?thesis
    using v l l' big dflt sa sl fa fh fl by (simp add: prod_eq_iff)
qed

text \<open>The player handler, branch by branch.\<close>

lemma player_data_explicit:
  assumes "userInfo \<noteq> JUndefined" and "userInfo \<noteq> JNull"
  shows "player_data userId userInfo fc thumb
           = Inr (JObj [(''userId'', parseInt userId),
                        (''username'', js_or (field userInfo ''displayName'') (field userInfo ''name'')),
                        (''displayName'', field userInfo ''displayName''),
                        (''description'', js_or (field userInfo ''description'') (JStr [])),
                        (''created'', field userInfo ''created''),
                        (''isBanned'', js_or (field userInfo ''isBanned'') (JBool False)),
                        (''friendsCount'', fc),
                        (''avatarThumbnail'', thumb),
                        (''hasVerifiedBadge'', js_or (field userInfo ''hasVerifiedBadge'') (JBool False))])"
  using assms by (cases userInfo) (simp_all add: player_data_def bnd_def field_def)

lemma player_build_fst:
  "fst (player_build e net userId userInfo s1) =
     bnd (friendsCount_of (fst (fetchFromRobloxAPI net (friends_url userId) None None s1)))
       (\<lambda>friendsCount.
     bnd (avatarThumbnail_of e userId (fst (fetchFromRobloxAPI net (headshot_url userId) None None s1)))
       (\<lambda>avatarThumbnail.
       player_data userId userInfo friendsCount avatarThumbnail))"
proof -
  obtain fd s2 where f: "fetchFromRobloxAPI net (friends_url userId) None None s1 = (fd, s2)"
    by (cases "fetchFromRobloxAPI net (friends_url userId) None None s1")
  obtain ad s3 where
    a: "fetchFromRobloxAPI net (headshot_url userId) None None (s2\<lparr>clock := clock s1\<rparr>) = (ad, s3)"
    by (cases "fetchFromRobloxAPI net (headshot_url userId) None None (s2\<lparr>clock := clock s1\<rparr>)")
  have "fst (fetchFromRobloxAPI net (headshot_url userId) None None (s2\<lparr>clock := clock s1\<rparr>))
          = fst (fetchFromRobloxAPI net (headshot_url userId) None None s1)"
    by (rule keyless_fetch_fst) simp
  then have ad: "ad = fst (fetchFromRobloxAPI net (headshot_url userId) None None s1)"
    by (simp add: a)
  show ?thesis
    by (simp add: player_build_def f a ad[symmetric] Let_def)
qed

lemma player_build_clock:
  "clock (snd (player_build e net userId userInfo s1))
     = max (snd (net (axios_get_config (friends_url userId)) (clock s1)))
           (snd (net (axios_get_config (headshot_url userId)) (clock s1)))"
  by (auto simp: player_build_def keyless_fetch Let_def split: prod.splits settled.splits)

lemma player_handler_main_failed:
  assumes "fetchFromRobloxAPI net (users_url userId) (Some (''player_'' @ userId)) None s = (Inl err, s1)"
  shows "player_handler e net userId s = (sendResponse e (clock s1) (player_mock e userId) None, s1)"
  using assms by (simp add: player_handler_def)

lemma player_handler_built:
  assumes main: "fetchFromRobloxAPI net (users_url userId) (Some (''player_'' @ userId)) None s
                   = (Inr userInfo, s1)"
    and info: "userInfo \<noteq> JUndefined" "userInfo \<noteq> JNull"
    and fr: "friendsCount_of (fst (fetchFromRobloxAPI net (friends_url userId) None None s1)) = Inr fc"
    and av: "avatarThumbnail_of e userId (fst (fetchFromRobloxAPI net (headshot_url userId) None None s1))
               = Inr thumb"
    and d: "player_data userId userInfo fc thumb = Inr data"
  shows "fst (player_handler e net userId s)
           = sendResponse e
               (max (snd (net (axios_get_config (friends_url userId)) (clock s1)))
                    (snd (net (axios_get_config (headshot_url userId)) (clock s1))))
               data None"
proof -
  have b: "fst (player_build e net userId userInfo s1) = Inr data"
    by (simp add: player_build_fst fr av d bnd_def)
  obtain s4 where b': "player_build e net userId userInfo s1 = (Inr data, s4)"
    using b by (cases "player_build e net userId userInfo s1") simp
  have c: "clock s4 = max (snd (net (axios_get_config (friends_url userId)) (clock s1)))
                          (snd (net (axios_get_config (headshot_url userId)) (clock s1)))"
    using player_build_clock[of e net userId userInfo s1] by (simp add: b')
  have "player_handler e net userId s = (sendResponse e (clock s4) data None, s4)"
    using main by (simp add: player_handler_def b')
  then show ?thesis
    by (simp add: c)
qed

text \<open>
  C9, as the code has it. In the handler of \<open>GET /player/:userId\<close> a rejected friends
  count yields \<open>friendsCount = 0\<close> and a rejected thumbnail call yields the default
  thumbnail address, while a fulfilled friends count is read from \<open>count\<close> and a
  fulfilled thumbnail from the first element of \<open>data\<close>, the default address standing in
  when \<open>data\<close> is an empty list. Neither rejection by itself leads to the mock object:
  when the main fetch returned a value other than \<open>undefined\<close> and \<open>null\<close> and each
  auxiliary result was either rejected or could be read, the answer is the object written
  out below, built from the fetched user info with those two fields and stamped with the
  time the later of the two auxiliary calls settled. When the main fetch throws, the
  answer is the mock object, written out below as well.
\<close>

theorem player_aux_failures_absorbed:
  "friendsCount_of (Inl err) = Inr (JNum 0)
   \<and> avatarThumbnail_of e userId (Inl err)
       = Inr (JStr (''https://www.roblox.com/headshot-thumbnail/image?userId='' @ userId))
   \<and> friendsCount_of (Inr (JObj [(''count'', c)])) = Inr c
   \<and> avatarThumbnail_of e userId (Inr (JObj [(''data'', JArr [JObj [(''imageUrl'', u)]])])) = Inr u
   \<and> avatarThumbnail_of e userId (Inr (JObj [(''data'', JArr [])]))
       = Inr (JStr (''https://www.roblox.com/headshot-thumbnail/image?userId='' @ userId))
   \<and> (fetchFromRobloxAPI net (users_url userId) (Some (''player_'' @ userId)) None s = (Inr userInfo, s1)
        \<and> userInfo \<noteq> JUndefined \<and> userInfo \<noteq> JNull
        \<and> friendsCount_of (fst (fetchFromRobloxAPI net (friends_url userId) None None s1)) = Inr fc
        \<and> avatarThumbnail_of e userId (fst (fetchFromRobloxAPI net (headshot_url userId) None None s1))
            = Inr thumb
      \<longrightarrow> fst (player_handler e net userId s)
            = \<lparr>res_status = 200,
               res_body =
                 JObj [(''success'', JBool True),
                       (''message'', JStr ''Success''),
                       (''data'',
                        JObj [(''userId'', parseInt userId),
                              (''username'', js_or (field userInfo ''displayName'') (field userInfo ''name'')),
                              (''displayName'', field userInfo ''displayName''),
                              (''description'', js_or (field userInfo ''description'') (JStr [])),
                              (''created'', field userInfo ''created''),
                              (''isBanned'', js_or (field userInfo ''isBanned'') (JBool False)),
                              (''friendsCount'', fc),
                              (''avatarThumbnail'', thumb),
                              (''hasVerifiedBadge'',
                               js_or (field userInfo ''hasVerifiedBadge'') (JBool False))]),
                       (''timestamp'',
                        JStr (toISOString e
                                (max (snd (net (axios_get_config (friends_url userId)) (clock s1)))
                                     (snd (net (axios_get_config (headshot_url userId)) (clock s1))))))]\<rparr>)
   \<and> (fetchFromRobloxAPI net (users_url userId) (Some (''player_'' @ userId)) None s = (Inl err', s1')
      \<longrightarrow> player_handler e net userId s
            = (\<lparr>res_status = 200,
                res_body =
                  JObj [(''success'', JBool True),
                        (''message'', JStr ''Success''),
                        (''data'',
                         JObj [(''userId'', parseInt userId),
                               (''username'', JStr (''Player'' @ userId)),
                               (''displayName'', JStr (''Player'' @ userId)),
                               (''description'', JStr ''A Roblox player''),
                               (''created'', JStr ''2020-01-01T00:00:00.000Z''),
                               (''isBanned'', JBool False),
                               (''friendsCount'', JNum (real_of_int \<lfloor>dmul (Math_random e 0) 1000\<rfloor>)),
                               (''avatarThumbnail'',
                                JStr (''https://www.roblox.com/headshot-thumbnail/image?userId='' @ userId
                                      @ ''&width=150&height=150'')),
                               (''hasVerifiedBadge'', JBool False)]),
                        (''timestamp'', JStr (toISOString e (clock s1')))]\<rparr>, s1'))"
proof -
  have a: "friendsCount_of (Inl err) = Inr (JNum 0)"
    by (simp add: friendsCount_of_def)
  have b: "avatarThumbnail_of e userId (Inl err)
             = Inr (JStr (''https://www.roblox.com/headshot-thumbnail/image?userId='' @ userId))"
    by (simp add: avatarThumbnail_of_def default_thumbnail_def)
  have c: "friendsCount_of (Inr (JObj [(''count'', c)])) = Inr c"
    by (simp add: friendsCount_of_def)
  have d: "avatarThumbnail_of e userId (Inr (JObj [(''data'', JArr [JObj [(''imageUrl'', u)]])])) = Inr u"
    by (simp add: avatarThumbnail_of_def bnd_def)
  have d': "avatarThumbnail_of e userId (Inr (JObj [(''data'', JArr [])]))
              = Inr (JStr (''https://www.roblox.com/headshot-thumbnail/image?userId='' @ userId))"
    by (simp add: avatarThumbnail_of_def bnd_def default_thumbnail_def)
  have f: "fst (player_handler e net userId s)
            = \<lparr>res_status = 200,
               res_body =
                 JObj [(''success'', JBool True),
                       (''message'', JStr ''Success''),
                       (''data'',
                        JObj [(''userId'', parseInt userId),
                              (''username'', js_or (field userInfo ''displayName'') (field userInfo ''name'')),
                              (''displayName'', field userInfo ''displayName''),
                              (''description'', js_or (field userInfo ''description'') (JStr [])),
                              (''created'', field userInfo ''created''),
                              (''isBanned'', js_or (field userInfo ''isBanned'') (JBool False)),
                              (''friendsCount'', fc),
                              (''avatarThumbnail'', thumb),
                              (''hasVerifiedBadge'',
                               js_or (field userInfo ''hasVerifiedBadge'') (JBool False))]),
                       (''timestamp'',
                        JStr (toISOString e
                                (max (snd (net (axios_get_config (friends_url userId)) (clock s1)))
                                     (snd (net (axios_get_config (headshot_url userId)) (clock s1))))))]\<rparr>"
    if "fetchFromRobloxAPI net (users_url userId) (Some (''player_'' @ userId)) None s = (Inr userInfo, s1)"
      and "userInfo \<noteq> JUndefined" and "userInfo \<noteq> JNull"
      and "friendsCount_of (fst (fetchFromRobloxAPI net (friends_url userId) None None s1)) = Inr fc"
      and "avatarThumbnail_of e userId (fst (fetchFromRobloxAPI net (headshot_url userId) None None s1))
            = Inr thumb"
    using player_handler_built[OF that(1,2,3,4,5) player_data_explicit[OF that(2,3)]]
    by (simp add: sendResponse_def)
  have g: "player_handler e net userId s
            = (\<lparr>res_status = 200,
                res_body =
                  JObj [(''success'', JBool True),
                        (''message'', JStr ''Success''),
                        (''data'',
                         JObj [(''userId'', parseInt userId),
                               (''username'', JStr (''Player'' @ userId)),
                               (''displayName'', JStr (''Player'' @ userId)),
                               (''description'', JStr ''A Roblox player''),
                               (''created'', JStr ''2020-01-01T00:00:00.000Z''),
                               (''isBanned'', JBool False),
                               (''friendsCount'', JNum (real_of_int \<lfloor>dmul (Math_random e 0) 1000\<rfloor>)),
                               (''avatarThumbnail'',
                                JStr (''https://www.roblox.com/headshot-thumbnail/image?userId='' @ userId
                                      @ ''&width=150&height=150'')),
                               (''hasVerifiedBadge'', JBool False)]),
                        (''timestamp'', JStr (toISOString e (clock s1')))]\<rparr>, s1')"
    if "fetchFromRobloxAPI net (users_url userId) (Some (''player_'' @ userId)) None s = (Inl err', s1')"
    using player_handler_main_failed[OF that, of e]
    by (simp add: sendResponse_def player_mock_def random_below_def)
  show ?thesis
    using a b c d d' f g by blast
qed

text \<open>
  Two instances. The user record of player 1 is fetched and both auxiliary calls are
  refused: the answer is built from the record, with \<open>friendsCount = 0\<close> and the default
  thumbnail. And every call is refused: the answer is the mock object, its friends count
  123 from the first draw.
\<close>

theorem player_aux_failures_absorbed_witness:
  "fetchFromRobloxAPI net_only_user (users_url ''1'') (Some (''player_'' @ ''1'')) None (server_init 0)
     = (Inr doc_user,
        snd (fetchFromRobloxAPI net_only_user (users_url ''1'') (Some (''player_'' @ ''1'')) None (server_init 0)))
   \<and> doc_user \<noteq> JUndefined \<and> doc_user \<noteq> JNull
   \<and> fst (player_handler sample_env net_only_user ''1'' (server_init 0))
       = \<lparr>res_status = 200,
          res_body =
            JObj [(''success'', JBool True),
                  (''message'', JStr ''Success''),
                  (''data'',
                   JObj [(''userId'', JNum 1),
                         (''username'', JStr ''Builderman''),
                         (''displayName'', JStr ''Builderman''),
                         (''description'', JStr ''hello''),
                         (''created'', JStr ''2006-02-27T21:06:40.3Z''),
                         (''isBanned'', JBool False),
                         (''friendsCount'', JNum 0),
                         (''avatarThumbnail'', JStr ''https://www.roblox.com/headshot-thumbnail/image?userId=1''),
                         (''hasVerifiedBadge'', JBool True)]),
                  (''timestamp'', JStr ''0'')]\<rparr>
   \<and> fetchFromRobloxAPI (net_fail refused_error 3) (users_url ''1'') (Some (''player_'' @ ''1'')) None
        (server_init 0)
       = (Inl (Error ''Failed to connect to Roblox API''),
          \<lparr>cache = Map.empty, sent = [axios_get_config (users_url ''1'')], clock = 3\<rparr>)
   \<and> fst (player_handler sample_env (net_fail refused_error 3) ''1'' (server_init 0))
       = \<lparr>res_status = 200,
          res_body =
            JObj [(''success'', JBool True),
                  (''message'', JStr ''Success''),
                  (''data'',
                   JObj [(''userId'', JNum 1),
                         (''username'', JStr ''Player1''),
                         (''displayName'', JStr ''Player1''),
                         (''description'', JStr ''A Roblox player''),
                         (''created'', JStr ''2020-01-01T00:00:00.000Z''),
                         (''isBanned'', JBool False),
                         (''friendsCount'', JNum 123),
                         (''avatarThumbnail'',
                          JStr ''https://www.roblox.com/headshot-thumbnail/image?userId=1&width=150&height=150''),
                         (''hasVerifiedBadge'', JBool False)]),
                  (''timestamp'', JStr ''3'')]\<rparr>"
proof -
  define s1 where
    "s1 = snd (fetchFromRobloxAPI net_only_user (users_url ''1'') (Some (''player_'' @ ''1'')) None (server_init 0))"
  have ni: "\<not> inherited (''player_'' @ ''1'')"
    by (rule not_inherited_player)
  have main: "fetchFromRobloxAPI net_only_user (users_url ''1'') (Some (''player_'' @ ''1'')) None (server_init 0)
                = (Inr doc_user, s1)"
    unfolding s1_def using ni
    by (simp add: fetch_cases truthy_key_def server_init_def fetch_upstream_def net_only_user_def
          net_table_def users_url_def axios_get_config_def ok_response_def Let_def)
  have c1: "clock s1 = 0"
    unfolding s1_def using ni
    by (simp add: fetch_cases truthy_key_def server_init_def fetch_upstream_def net_only_user_def
          net_table_def users_url_def axios_get_config_def ok_response_def Let_def)
  have ne: "doc_user \<noteq> JUndefined" "doc_user \<noteq> JNull"
    by (simp_all add: doc_user_def)
  have fr: "friendsCount_of (fst (fetchFromRobloxAPI net_only_user (friends_url ''1'') None None s1))
              = Inr (JNum 0)"
    by (simp add: keyless_fetch c1 net_only_user_def net_table_def users_url_def friends_url_def
          axios_get_config_def friendsCount_of_def)
  have av: "avatarThumbnail_of sample_env ''1''
              (fst (fetchFromRobloxAPI net_only_user (headshot_url ''1'') None None s1))
              = Inr (default_thumbnail ''1'')"
    by (simp add: keyless_fetch c1 net_only_user_def net_table_def users_url_def headshot_url_def
          axios_get_config_def avatarThumbnail_of_def)
  have c4: "snd (net_only_user (axios_get_config (friends_url ''1'')) (clock s1)) = 0"
    "snd (net_only_user (axios_get_config (headshot_url ''1'')) (clock s1)) = 0"
    by (simp_all add: c1 net_only_user_def net_table_def)
  have decs: "dec 0 = ''0''" "dec 3 = ''3''"
    by (simp_all add: dec.simps)
  have one: "fst (player_handler sample_env net_only_user ''1'' (server_init 0))
       = \<lparr>res_status = 200,
          res_body =
            JObj [(''success'', JBool True),
                  (''message'', JStr ''Success''),
                  (''data'',
                   JObj [(''userId'', JNum 1),
                         (''username'', JStr ''Builderman''),
                         (''displayName'', JStr ''Builderman''),
                         (''description'', JStr ''hello''),
                         (''created'', JStr ''2006-02-27T21:06:40.3Z''),
                         (''isBanned'', JBool False),
                         (''friendsCount'', JNum 0),
                         (''avatarThumbnail'', JStr ''https://www.roblox.com/headshot-thumbnail/image?userId=1''),
                         (''hasVerifiedBadge'', JBool True)]),
                  (''timestamp'', JStr ''0'')]\<rparr>"
    using player_aux_failures_absorbed[where net=net_only_user and userId="''1''" and s="server_init 0"
            and userInfo=doc_user and ?s1.0=s1 and fc="JNum 0" and e=sample_env
            and thumb="default_thumbnail ''1''"]
          main ne fr av
    by (simp add: c4 doc_user_def field_def js_or_def parseInt_samples default_thumbnail_def
          sample_env_simps show_int_def decs)
  have down: "fetchFromRobloxAPI (net_fail refused_error 3) (users_url ''1'') (Some (''player_'' @ ''1'')) None
        (server_init 0)
       = (Inl (Error ''Failed to connect to Roblox API''),
          \<lparr>cache = Map.empty, sent = [axios_get_config (users_url ''1'')], clock = 3\<rparr>)"
    using ni
    by (simp add: fetch_cases truthy_key_def server_init_def fetch_upstream_def net_fail_def net_const_def
          catch_block_def refused_error_def)
  have two: "fst (player_handler sample_env (net_fail refused_error 3) ''1'' (server_init 0))
       = \<lparr>res_status = 200,
          res_body =
            JObj [(''success'', JBool True),
                  (''message'', JStr ''Success''),
                  (''data'',
                   JObj [(''userId'', JNum 1),
                         (''username'', JStr ''Player1''),
                         (''displayName'', JStr ''Player1''),
                         (''description'', JStr ''A Roblox player''),
                         (''created'', JStr ''2020-01-01T00:00:00.000Z''),
                         (''isBanned'', JBool False),
                         (''friendsCount'', JNum 123),
                         (''avatarThumbnail'',
                          JStr ''https://www.roblox.com/headshot-thumbnail/image?userId=1&width=150&height=150''),
                         (''hasVerifiedBadge'', JBool False)]),
                  (''timestamp'', JStr ''3'')]\<rparr>"
    using player_aux_failures_absorbed[where net="net_fail refused_error 3" and userId="''1''"
            and s="server_init 0" and e=sample_env and err'="Error ''Failed to connect to Roblox API''"
            and ?s1'.0="\<lparr>cache = Map.empty, sent = [axios_get_config (users_url ''1'')], clock = 3\<rparr>"]
          down
    by (simp add: parseInt_samples sample_env_simps dmul_draw show_int_def decs)
  show ?thesis
    using main ne one down two by (simp add: s1_def)
qed

text \<open>
  The claim as stated fails: here all three fetches succeed, the thumbnail service
  answering \<open>{}\<close>, and the answer is the mock object all the same, because reading
  \<open>.length\<close> of the missing \<open>data\<close> throws inside the \<open>try\<close>. So a failure of the main
  fetch is not the only thing that leads to the mock object. The same body \<open>{}\<close> leads to
  the mock object when the friends count is refused, so a failed auxiliary call does not
  always leave an answer built from the user info; and so does a main fetch that succeeds
  with the body \<open>null\<close> while both auxiliary calls are refused.
\<close>

theorem player_fallback_counterexample:
  "fst (fetchFromRobloxAPI net_empty_avatar (users_url ''1'') (Some ''player_1'') None (server_init 0))
     = Inr doc_A
   \<and> fst (player_handler sample_env net_empty_avatar ''1'' (server_init 0))
       = sendResponse sample_env 0 (player_mock sample_env ''1'') None
   \<and> fst (fetchFromRobloxAPI net_friends_down_empty_avatar (users_url ''1'') (Some ''player_1'') None
            (server_init 0))
       = Inr doc_A
   \<and> fst (player_handler sample_env net_friends_down_empty_avatar ''1'' (server_init 0))
       = sendResponse sample_env 0 (player_mock sample_env ''1'') None
   \<and> fst (fetchFromRobloxAPI net_null_user (users_url ''1'') (Some ''player_1'') None (server_init 0))
       = Inr JNull
   \<and> fst (player_handler sample_env net_null_user ''1'' (server_init 0))
       = sendResponse sample_env 0 (player_mock sample_env ''1'') None
   \<and> field (res_body (sendResponse sample_env 0 (player_mock sample_env ''1'') None)) ''data''
       = JObj [(''userId'', JNum 1),
               (''username'', JStr ''Player1''),
               (''displayName'', JStr ''Player1''),
               (''description'', JStr ''A Roblox player''),
               (''created'', JStr ''2020-01-01T00:00:00.000Z''),
               (''isBanned'', JBool False),
               (''friendsCount'', JNum 123),
               (''avatarThumbnail'',
                JStr ''https://www.roblox.com/headshot-thumbnail/image?userId=1&width=150&height=150''),
               (''hasVerifiedBadge'', JBool False)]"
proof -
  have ni: "\<not> inherited ''player_1''"
    by (rule not_inherited_player_1)
  have "fst (fetchFromRobloxAPI net_empty_avatar (users_url ''1'') (Some ''player_1'') None (server_init 0))
     = Inr doc_A
   \<and> fst (player_handler sample_env net_empty_avatar ''1'' (server_init 0))
       = sendResponse sample_env 0 (player_mock sample_env ''1'') None
   \<and> fst (fetchFromRobloxAPI net_friends_down_empty_avatar (users_url ''1'') (Some ''player_1'') None
            (server_init 0))
       = Inr doc_A
   \<and> fst (player_handler sample_env net_friends_down_empty_avatar ''1'' (server_init 0))
       = sendResponse sample_env 0 (player_mock sample_env ''1'') None
   \<and> fst (fetchFromRobloxAPI net_null_user (users_url ''1'') (Some ''player_1'') None (server_init 0))
       = Inr JNull
   \<and> fst (player_handler sample_env net_null_user ''1'' (server_init 0))
       = sendResponse sample_env 0 (player_mock sample_env ''1'') None"
    using ni
    by (simp add: player_handler_def player_build_def fetch_cases truthy_key_def server_init_def
        fetch_upstream_def net_empty_avatar_def net_friends_down_empty_avatar_def net_null_user_def
        net_table_def users_url_def friends_url_def
        headshot_url_def ok_response_def cache_set_def Let_def friendsCount_of_def
        avatarThumbnail_of_def bnd_def doc_A_def axios_get_config_def player_data_def
        default_thumbnail_def)
  moreover have "field (res_body (sendResponse sample_env 0 (player_mock sample_env ''1'') None)) ''data''
       = JObj [(''userId'', JNum 1),
               (''username'', JStr ''Player1''),
               (''displayName'', JStr ''Player1''),
               (''description'', JStr ''A Roblox player''),
               (''created'', JStr ''2020-01-01T00:00:00.000Z''),
               (''isBanned'', JBool False),
               (''friendsCount'', JNum 123),
               (''avatarThumbnail'',
                JStr ''https://www.roblox.com/headshot-thumbnail/image?userId=1&width=150&height=150''),
               (''hasVerifiedBadge'', JBool False)]"
    by (simp add: sendResponse_def field_def player_mock_def parseInt_samples random_below_def
          sample_env_simps dmul_draw)
  ultimately show ?thesis
    by blast
qed

text \<open>
  The bodies written by \<open>sendResponse\<close> and \<open>sendError\<close> carry the envelope: \<open>success\<close>
  and \<open>timestamp\<close>, with \<open>message\<close> on success and \<open>error\<close> and \<open>code\<close> on failure
  (\<open>data\<close> is present whenever the handler passes a value other than \<open>undefined\<close>).
\<close>

lemma sendResponse_sendError_envelope:
  "has_field (res_body (sendResponse e now data message)) ''success''
   \<and> has_field (res_body (sendResponse e now data message)) ''timestamp''
   \<and> has_field (res_body (sendResponse e now data message)) ''message''
   \<and> has_field (res_body (sendResponse e now data message)) ''data'' = (data \<noteq> JUndefined)
   \<and> has_field (res_body (sendError e now st msg code details)) ''success''
   \<and> has_field (res_body (sendError e now st msg code details)) ''timestamp''
   \<and> has_field (res_body (sendError e now st msg code details)) ''error''
   \<and> has_field (res_body (sendError e now st msg code details)) ''code''"
  by (simp add: sendResponse_def sendError_def has_field_def)

lemma error_handlers_envelope:
  "has_field (res_body (not_found_handler e now)) ''success''
   \<and> has_field (res_body (not_found_handler e now)) ''timestamp''
   \<and> has_field (res_body (not_found_handler e now)) ''error''
   \<and> has_field (res_body (not_found_handler e now)) ''code''
   \<and> has_field (res_body (global_error_handler e now msg)) ''success''
   \<and> has_field (res_body (global_error_handler e now msg)) ''timestamp''
   \<and> has_field (res_body (global_error_handler e now msg)) ''error''
   \<and> has_field (res_body (global_error_handler e now msg)) ''code''"
  by (simp add: not_found_handler_def global_error_handler_def sendError_def has_field_def)

text \<open>
  C10 does not hold of the code: the two middlewares write their bodies themselves and
  leave the timestamp out. A request whose parameter fails validation is answered 400
  with \<open>success\<close>, \<open>error\<close>, \<open>code\<close> and \<open>details\<close> only; a request without the
  required API key is answered 401 with \<open>success\<close>, \<open>error\<close> and \<open>code\<close> only.
\<close>

theorem middleware_bodies_lack_timestamp:
  "handleValidationErrors [JObj [(''msg'', JStr ''User ID must be numeric'')]]
     = Some \<lparr>res_status = 400,
             res_body = JObj [(''success'', JBool False), (''error'', JStr ''Validation failed''),
                              (''code'', JStr ''VALIDATION_ERROR''),
                              (''details'', JArr [JObj [(''msg'', JStr ''User ID must be numeric'')]])]\<rparr>
   \<and> \<not> has_field (JObj [(''success'', JBool False), (''error'', JStr ''Validation failed''),
                        (''code'', JStr ''VALIDATION_ERROR''),
                        (''details'', JArr [JObj [(''msg'', JStr ''User ID must be numeric'')]])])
          ''timestamp''
   \<and> authenticateApiKey (sample_env\<lparr>API_KEY := Some ''secret''\<rparr>) None None
     = Some \<lparr>res_status = 401,
             res_body = JObj [(''success'', JBool False), (''error'', JStr ''Invalid or missing API key''),
                              (''code'', JStr ''INVALID_API_KEY'')]\<rparr>
   \<and> \<not> has_field (JObj [(''success'', JBool False), (''error'', JStr ''Invalid or missing API key''),
                        (''code'', JStr ''INVALID_API_KEY'')]) ''timestamp''
   \<and> \<not> has_field limiter_message ''success''
   \<and> \<not> has_field limiter_message ''timestamp''"
  by (simp add: handleValidationErrors_def has_field_def authenticateApiKey_def truthy_str_def
                sample_env_def limiter_message_def)

end
